theory Spec2Isabelle
  imports Main
begin

section \<open>Data model (types.ts)\<close>

text \<open>
  The enum \<^verbatim>\<open>AppState\<close> and the interfaces of \<^verbatim>\<open>types.ts\<close>. An optional field
  (\<^verbatim>\<open>imageUrl?: string\<close>) is an \<open>option\<close>; \<^verbatim>\<open>panelId\<close> and \<^verbatim>\<open>group\<close> are
  integers in the response schema. Both \<^verbatim>\<open>Vocabulary\<close> and \<^verbatim>\<open>ComicPanel\<close> have
  fields \<^verbatim>\<open>visualPrompt\<close> and \<^verbatim>\<open>imageUrl\<close>; the ones of \<^verbatim>\<open>Vocabulary\<close> carry the
  suffix \<open>_v\<close> here, as do names that are taken in HOL (\<open>definition\<close>, \<open>id\<close>,
  \<open>group\<close>).
\<close>

datatype AppState = IDLE | ANALYZING | GENERATING_IMAGES | COMPLETE | ERROR

record Vocabulary =
  word :: string
  definition_v :: string
  example :: string
  visualPrompt_v :: string
  imageUrl_v :: "string option"

record ComicPanel =
  panelId :: int
  visualPrompt :: string
  caption :: string
  characterDialogue :: string
  imageUrl :: "string option"

record LogicNode =
  id_n :: string
  label :: string
  group_n :: int

record LogicLink =
  source :: string
  target :: string
  relationship :: string

record LogicGraphData =
  nodes :: "LogicNode list"
  links :: "LogicLink list"

record AnalysisResult =
  summary :: string
  comicScript :: "ComicPanel list"
  logicGraph :: LogicGraphData
  vocabulary :: "Vocabulary list"

section \<open>The image service (services/geminiService: generateImage)\<close>

text \<open>
  A JavaScript exception, or the reason a promise is rejected with. An awaited call is
  modelled at its settlement: \<open>Inl e\<close> is a rejection (the \<^verbatim>\<open>await\<close> throws \<open>e\<close>),
  \<open>Inr v\<close> a fulfilment with \<open>v\<close>.
\<close>

datatype js_error = Error string

text \<open>
  The part of the SDK's response that \<^verbatim>\<open>generateImage\<close> reads:
  \<^verbatim>\<open>response.candidates?.[0]?.content?.parts\<close>, and of each part
  \<^verbatim>\<open>inlineData.data\<close> and \<^verbatim>\<open>inlineData.mimeType\<close>. Every step of the chain may be
  \<^verbatim>\<open>undefined\<close>.
\<close>

record Blob =
  mimeType :: "string option"
  data_b :: "string option"

record Part =
  inlineData :: "Blob option"

record Content =
  parts :: "Part list option"

record Candidate =
  content :: "Content option"

record GenerateContentResponse =
  candidates :: "Candidate list option"

text \<open>
  The model call \<^verbatim>\<open>ai.models.generateContent\<close> with the image model: from the prompt
  text to its settlement.
\<close>

type_synonym image_model = "string \<Rightarrow> js_error + GenerateContentResponse"

definition placeholderUrl :: string where
  "placeholderUrl = ''https://picsum.photos/400/300?blur=2&text=Image+Gen+Failed''"

definition finalPrompt :: "string \<Rightarrow> string" where
  "finalPrompt visualPrompt' =
     ''Manga style illustration, black and white ink style or soft colored anime style, educational context. ''
       @ visualPrompt'"

text \<open>JavaScript truthiness of an optional string: \<^verbatim>\<open>undefined\<close> and \<^verbatim>\<open>''\<close> are falsy.\<close>

fun truthy :: "string option \<Rightarrow> bool" where
  "truthy None = False"
| "truthy (Some s) = (s \<noteq> [])"

text \<open>\<^verbatim>\<open>a || b\<close> on an optional string and a default.\<close>

fun orElse :: "string option \<Rightarrow> string \<Rightarrow> string" where
  "orElse None d = d"
| "orElse (Some s) d = (if s = [] then d else s)"

text \<open>\<^verbatim>\<open>response.candidates?.[0]?.content?.parts\<close>\<close>

definition responseParts :: "GenerateContentResponse \<Rightarrow> Part list option" where
  "responseParts response =
     (case candidates response of
        None \<Rightarrow> None
      | Some [] \<Rightarrow> None
      | Some (c # _) \<Rightarrow> (case content c of None \<Rightarrow> None | Some ct \<Rightarrow> parts ct))"

text \<open>
  The loop over the parts: it returns the data URL of the first part whose
  \<^verbatim>\<open>inlineData\<close> and \<^verbatim>\<open>inlineData.data\<close> are truthy; \<open>None\<close> when the loop ends
  without returning.
\<close>

fun firstInlineImage :: "Part list \<Rightarrow> string option" where
  "firstInlineImage [] = None"
| "firstInlineImage (part # rest) =
     (case inlineData part of
        None \<Rightarrow> firstInlineImage rest
      | Some b \<Rightarrow>
          (case data_b b of
             None \<Rightarrow> firstInlineImage rest
           | Some d \<Rightarrow>
               if d = [] then firstInlineImage rest
               else Some (''data:'' @ orElse (mimeType b) ''image/png'' @ '';base64,'' @ d)))"

text \<open>The test of the loop, \<^verbatim>\<open>part.inlineData && part.inlineData.data\<close>.\<close>

definition hasInlineData :: "Part \<Rightarrow> bool" where
  "hasInlineData part = (case inlineData part of None \<Rightarrow> False | Some b \<Rightarrow> truthy (data_b b))"

text \<open>The body of the \<^verbatim>\<open>try\<close> block of \<^verbatim>\<open>generateImage\<close>: it may throw.\<close>

definition generateImage_try :: "image_model \<Rightarrow> string \<Rightarrow> js_error + string" where
  "generateImage_try ai visualPrompt' =
     (case ai (finalPrompt visualPrompt') of
        Inl e \<Rightarrow> Inl e
      | Inr response \<Rightarrow>
          (case responseParts response of
             None \<Rightarrow> Inl (Error ''No image data returned'')
           | Some ps \<Rightarrow>
               (case firstInlineImage ps of
                  Some url \<Rightarrow> Inr url
                | None \<Rightarrow> Inl (Error ''No image data returned''))))"

text \<open>
  \<^verbatim>\<open>generateImage\<close>: the \<^verbatim>\<open>catch\<close> logs the error and returns the placeholder URL.
  The result is the settlement of the promise the function returns.
\<close>

definition generateImage :: "image_model \<Rightarrow> string \<Rightarrow> js_error + string" where
  "generateImage ai visualPrompt' =
     (case generateImage_try ai visualPrompt' of
        Inl e \<Rightarrow> Inr placeholderUrl
      | Inr url \<Rightarrow> Inr url)"

section \<open>The application (App.tsx)\<close>

datatype Tab = Comic | Logic | Vocab

text \<open>The four \<^verbatim>\<open>useState\<close> cells of \<^verbatim>\<open>App\<close>.\<close>

record App_state =
  appState :: AppState
  data :: "AnalysisResult option"
  activeTab :: Tab
  errorMsg :: "string option"

definition initialApp :: App_state where
  "initialApp = \<lparr>appState = IDLE, data = None, activeTab = Comic, errorMsg = None\<rparr>"

text \<open>
  A call that \<^verbatim>\<open>App\<close> issues to one of its two collaborators:
  \<^verbatim>\<open>analyzeContent(text, imageBase64, mimeType, vocabCriteria)\<close> or
  \<^verbatim>\<open>generateImage(prompt)\<close>.
\<close>

datatype request =
  AnalyzeContent string "string option" "string option" string
| GenerateImage string

text \<open>
  A \<^verbatim>\<open>generateImage\<close> as its caller sees it: the settlement of the promise for a prompt.
  The calls of one batch are told apart by their position in the batch, so that two
  calls with the same prompt may settle differently.
\<close>

type_synonym image_gen = "string \<Rightarrow> js_error + string"

subsection \<open>handleAnalyze\<close>

text \<open>
  \<^verbatim>\<open>handleAnalyze\<close> is an \<^verbatim>\<open>async\<close> function: it runs in three segments, separated by
  its two \<^verbatim>\<open>await\<close>s. Each segment is a function of the state it finds when it runs
  and of the values its closure holds.

  First segment (lines 16 to 22): the three state writes, and the call of
  \<^verbatim>\<open>analyzeContent\<close>. There is no test of the current state.
\<close>

definition handleAnalyze_begin ::
  "string \<Rightarrow> string option \<Rightarrow> string option \<Rightarrow> string \<Rightarrow> App_state \<Rightarrow> App_state \<times> request list" where
  "handleAnalyze_begin text' imageBase64 mimeType' vocabCriteria st =
     (st\<lparr>appState := ANALYZING, errorMsg := None, data := None\<rparr>,
      [AnalyzeContent text' imageBase64 mimeType' vocabCriteria])"

text \<open>The outer \<^verbatim>\<open>catch\<close> (lines 64 to 68).\<close>

definition handleAnalyze_catch :: "App_state \<Rightarrow> App_state" where
  "handleAnalyze_catch st =
     st\<lparr>errorMsg := Some ''Something went wrong. Please check your API key or try simpler content.'',
        appState := ERROR\<rparr>"

text \<open>The prompt of a vocabulary item: \<^verbatim>\<open>v.visualPrompt || `Illustration of ${v.word}`\<close>.\<close>

definition vocabPrompt :: "Vocabulary \<Rightarrow> string" where
  "vocabPrompt v =
     (if visualPrompt_v v = [] then ''Illustration of '' @ word v else visualPrompt_v v)"

text \<open>
  Second segment (lines 23 to 53), run when the analysis has settled: on a rejection the
  outer \<^verbatim>\<open>catch\<close>; otherwise the document is stored and one \<^verbatim>\<open>generateImage\<close> call is
  issued per panel and per vocabulary item, in this order.
\<close>

definition handleAnalyze_analyzed ::
  "js_error + AnalysisResult \<Rightarrow> App_state \<Rightarrow> App_state \<times> request list" where
  "handleAnalyze_analyzed analysis st =
     (case analysis of
        Inl err \<Rightarrow> (handleAnalyze_catch st, [])
      | Inr result \<Rightarrow>
          (st\<lparr>data := Some result, appState := GENERATING_IMAGES\<rparr>,
           map (\<lambda>panel. GenerateImage (visualPrompt panel)) (comicScript result)
             @ map (\<lambda>v. GenerateImage (vocabPrompt v)) (vocabulary result)))"

text \<open>
  The \<^verbatim>\<open>async\<close> callback of \<^verbatim>\<open>comicScript.map\<close> (lines 27 to 35), at the settlement
  of its \<^verbatim>\<open>generateImage\<close> call: \<^verbatim>\<open>{ ...panel, imageUrl }\<close> on a fulfilment, the panel
  itself from the \<^verbatim>\<open>catch\<close>. The callback's promise never rejects.
\<close>

definition panelJob :: "image_gen \<Rightarrow> ComicPanel \<Rightarrow> ComicPanel" where
  "panelJob gen panel =
     (case gen (visualPrompt panel) of
        Inr url \<Rightarrow> panel\<lparr>imageUrl := Some url\<rparr>
      | Inl e \<Rightarrow> panel)"

text \<open>The callback of \<^verbatim>\<open>vocabulary.map\<close> (lines 39 to 47).\<close>

definition vocabJob :: "image_gen \<Rightarrow> Vocabulary \<Rightarrow> Vocabulary" where
  "vocabJob gen v =
     (case gen (vocabPrompt v) of
        Inr url \<Rightarrow> v\<lparr>imageUrl_v := Some url\<rparr>
      | Inl e \<Rightarrow> v)"

text \<open>
  \<^verbatim>\<open>comicPromises\<close> and \<^verbatim>\<open>vocabPromises\<close>: the array of promises, each given by the
  value it fulfils with. \<open>gen i\<close> is the \<^verbatim>\<open>generateImage\<close> call of the item at index
  \<open>i\<close>.
\<close>

definition comicPromises :: "(nat \<Rightarrow> image_gen) \<Rightarrow> ComicPanel list \<Rightarrow> ComicPanel list" where
  "comicPromises gen ps = map (\<lambda>i. panelJob (gen i) (ps ! i)) [0..<length ps]"

definition vocabPromises :: "(nat \<Rightarrow> image_gen) \<Rightarrow> Vocabulary list \<Rightarrow> Vocabulary list" where
  "vocabPromises gen vs = map (\<lambda>i. vocabJob (gen i) (vs ! i)) [0..<length vs]"

text \<open>
  \<^verbatim>\<open>Promise.all\<close> over promises that never reject, as ECMAScript defines it: an array
  of result slots, one per promise; a promise that fulfils writes its value into the slot
  of its own index; the combined promise fulfils with the array once every slot is
  written. \<open>order\<close> lists the indices of the promises in the order they settle; an index
  missing from it is a promise that never settles. The result \<open>None\<close> is a combined
  promise that stays pending.
\<close>

definition promiseAll_settle :: "'a list \<Rightarrow> nat \<Rightarrow> 'a option list \<Rightarrow> 'a option list" where
  "promiseAll_settle vals i slots =
     (if i < length vals then slots[i := Some (vals ! i)] else slots)"

definition promiseAll :: "'a list \<Rightarrow> nat list \<Rightarrow> 'a list option" where
  "promiseAll vals order =
     those (fold (promiseAll_settle vals) order (replicate (length vals) None))"

text \<open>Every promise of a batch of \<open>n\<close> has settled.\<close>

definition allSettled :: "nat \<Rightarrow> nat list \<Rightarrow> bool" where
  "allSettled n order = list_all (\<lambda>i. i \<in> set order) [0..<n]"

text \<open>
  Third segment (lines 56 to 62), run when both batches have settled: the functional
  update of \<^verbatim>\<open>data\<close> (it tests only that a document is present), then \<^verbatim>\<open>COMPLETE\<close>.
\<close>

definition handleAnalyze_merge ::
  "ComicPanel list \<Rightarrow> Vocabulary list \<Rightarrow> App_state \<Rightarrow> App_state" where
  "handleAnalyze_merge panelsWithImages vocabWithImages st =
     st\<lparr>data :=
          (case data st of
             Some prev \<Rightarrow> Some (prev\<lparr>comicScript := panelsWithImages, vocabulary := vocabWithImages\<rparr>)
           | None \<Rightarrow> None),
        appState := COMPLETE\<rparr>"

text \<open>
  The \<^verbatim>\<open>await Promise.all([Promise.all(comicPromises), Promise.all(vocabPromises)])\<close>
  and what follows it, for the batches of a stored \<open>result\<close>: while one of the two
  inner promises is pending nothing is written.
\<close>

definition handleAnalyze_images ::
  "(nat \<Rightarrow> image_gen) \<Rightarrow> (nat \<Rightarrow> image_gen) \<Rightarrow> nat list \<Rightarrow> nat list \<Rightarrow> AnalysisResult \<Rightarrow>
   App_state \<Rightarrow> App_state" where
  "handleAnalyze_images genP genV orderP orderV result st =
     (case promiseAll (comicPromises genP (comicScript result)) orderP of
        None \<Rightarrow> st
      | Some panelsWithImages \<Rightarrow>
          (case promiseAll (vocabPromises genV (vocabulary result)) orderV of
             None \<Rightarrow> st
           | Some vocabWithImages \<Rightarrow> handleAnalyze_merge panelsWithImages vocabWithImages st))"

text \<open>
  A whole run of \<^verbatim>\<open>handleAnalyze\<close> with no other handler in between: \<open>analysis\<close> is
  the settlement of \<^verbatim>\<open>analyzeContent\<close>, \<open>genP\<close> and \<open>genV\<close> the \<^verbatim>\<open>generateImage\<close> calls
  of the two batches, \<open>orderP\<close> and \<open>orderV\<close> the orders in which they settle.
\<close>

definition handleAnalyze ::
  "string \<Rightarrow> string option \<Rightarrow> string option \<Rightarrow> string \<Rightarrow> js_error + AnalysisResult \<Rightarrow>
   (nat \<Rightarrow> image_gen) \<Rightarrow> (nat \<Rightarrow> image_gen) \<Rightarrow> nat list \<Rightarrow> nat list \<Rightarrow> App_state \<Rightarrow> App_state" where
  "handleAnalyze text' imageBase64 mimeType' vocabCriteria analysis genP genV orderP orderV st =
     (let st1 = fst (handleAnalyze_begin text' imageBase64 mimeType' vocabCriteria st);
          st2 = fst (handleAnalyze_analyzed analysis st1)
      in case analysis of
           Inl err \<Rightarrow> st2
         | Inr result \<Rightarrow> handleAnalyze_images genP genV orderP orderV result st2)"

subsection \<open>The other handlers\<close>

text \<open>\<^verbatim>\<open>handleUpdatePanel\<close> (lines 72 to 76).\<close>

definition handleUpdatePanel :: "int \<Rightarrow> ComicPanel \<Rightarrow> App_state \<Rightarrow> App_state" where
  "handleUpdatePanel panelId' updatedPanel st =
     (case data st of
        None \<Rightarrow> st
      | Some d \<Rightarrow>
          st\<lparr>data := Some (d\<lparr>comicScript :=
                 map (\<lambda>p. if panelId p = panelId' then updatedPanel else p) (comicScript d)\<rparr>)\<rparr>)"

text \<open>
  \<^verbatim>\<open>handleRegeneratePanelImage\<close> (lines 79 to 91). \<open>closure\<close> is the \<^verbatim>\<open>data\<close> the
  handler was created with (the document when the button was clicked), \<open>st\<close> the state
  when the \<^verbatim>\<open>await\<close> settles: \<^verbatim>\<open>setData\<close> writes a document built from the closure's.
\<close>

definition handleRegeneratePanelImage ::
  "image_gen \<Rightarrow> int \<Rightarrow> AnalysisResult option \<Rightarrow> App_state \<Rightarrow> App_state" where
  "handleRegeneratePanelImage gen panelId' closure st =
     (case closure of
        None \<Rightarrow> st
      | Some d \<Rightarrow>
          (case find (\<lambda>p. panelId p = panelId') (comicScript d) of
             None \<Rightarrow> st
           | Some panel \<Rightarrow>
               (case gen (visualPrompt panel) of
                  Inr newImageUrl \<Rightarrow>
                    st\<lparr>data := Some (d\<lparr>comicScript :=
                          map (\<lambda>p. if panelId p = panelId' then p\<lparr>imageUrl := Some newImageUrl\<rparr> else p)
                            (comicScript d)\<rparr>)\<rparr>
                | Inl e \<Rightarrow> st)))"

text \<open>\<^verbatim>\<open>handleUpdateLogic\<close> (lines 94 to 97).\<close>

definition handleUpdateLogic :: "LogicGraphData \<Rightarrow> App_state \<Rightarrow> App_state" where
  "handleUpdateLogic newGraphData st =
     (case data st of
        None \<Rightarrow> st
      | Some d \<Rightarrow> st\<lparr>data := Some (d\<lparr>logicGraph := newGraphData\<rparr>)\<rparr>)"

text \<open>The \<^verbatim>\<open>onClick\<close> of the button "Start Over" (line 160).\<close>

definition startOver :: "App_state \<Rightarrow> App_state" where
  "startOver st = st\<lparr>appState := IDLE\<rparr>"

subsection \<open>What is rendered\<close>

text \<open>
  The conditions of the \<^verbatim>\<open>return\<close> of \<^verbatim>\<open>App\<close>: the input section, the only caller of
  \<^verbatim>\<open>handleAnalyze\<close> (line 121); the error banner inside it (line 124); the results view,
  which holds the button "Start Over", the tabs and the editors (line 154).
\<close>

definition inputSectionShown :: "App_state \<Rightarrow> bool" where
  "inputSectionShown st = (appState st = IDLE \<or> appState st = ERROR)"

definition errorBannerShown :: "App_state \<Rightarrow> bool" where
  "errorBannerShown st = (inputSectionShown st \<and> appState st = ERROR)"


section \<open>The input form (InputSection)\<close>









section \<open>The comic editor (components/ComicGenerator.tsx)\<close>

text \<open>
  \<^verbatim>\<open>EditForm\<close> keeps a copy of the panel it was mounted with (\<^verbatim>\<open>useState(panel)\<close>);
  its two text areas write \<^verbatim>\<open>caption\<close> and \<^verbatim>\<open>characterDialogue\<close> of the copy.
\<close>

definition EditForm_mount :: "ComicPanel \<Rightarrow> ComicPanel" where
  "EditForm_mount panel = panel"

definition EditForm_setCaption :: "string \<Rightarrow> ComicPanel \<Rightarrow> ComicPanel" where
  "EditForm_setCaption v form = form\<lparr>caption := v\<rparr>"

definition EditForm_setDialogue :: "string \<Rightarrow> ComicPanel \<Rightarrow> ComicPanel" where
  "EditForm_setDialogue v form = form\<lparr>characterDialogue := v\<rparr>"

text \<open>
  "Save Text": \<^verbatim>\<open>onSave(data)\<close>, that is \<^verbatim>\<open>handleSave\<close> of \<^verbatim>\<open>ComicGenerator\<close>, which calls
  \<^verbatim>\<open>onUpdatePanel(panel.panelId, panel)\<close>.
\<close>

definition ComicGenerator_handleSave :: "ComicPanel \<Rightarrow> App_state \<Rightarrow> App_state" where
  "ComicGenerator_handleSave form st = handleUpdatePanel (panelId form) form st"

section \<open>The graph editor (LogicGraph)\<close>

text \<open>
  The two \<^verbatim>\<open>useState\<close> cells of \<^verbatim>\<open>LogicGraph\<close>; \<^verbatim>\<open>editData\<close> is the scratch copy. The
  component is mounted with \<^verbatim>\<open>isEditing = false\<close> and \<^verbatim>\<open>editData = data\<close>, its prop.
\<close>

record LogicGraph_state =
  isEditing :: bool
  editData :: LogicGraphData

definition LogicGraph_mount :: "LogicGraphData \<Rightarrow> LogicGraph_state" where
  "LogicGraph_mount data' = \<lparr>isEditing = False, editData = data'\<rparr>"

text \<open>\<^verbatim>\<open>xs.filter((_, i) => i !== idx)\<close>\<close>

definition filterNotIndex :: "nat \<Rightarrow> 'a list \<Rightarrow> 'a list" where
  "filterNotIndex idx xs = map snd (filter (\<lambda>ix. fst ix \<noteq> idx) (enumerate 0 xs))"

text \<open>The decimal digits of a number, for \<^verbatim>\<open>`n${Date.now()}`\<close>.\<close>

fun decimal :: "nat \<Rightarrow> string" where
  "decimal n =
     (if n < 10 then [''0123456789'' ! n]
      else decimal (n div 10) @ [''0123456789'' ! (n mod 10)])"

declare decimal.simps [simp del]

text \<open>
  A field of a node or of a link with its new value: the \<^verbatim>\<open>field\<close> and \<^verbatim>\<open>val\<close> of
  \<^verbatim>\<open>updateNode\<close> and \<^verbatim>\<open>updateLink\<close>.
\<close>

datatype NodeField = Id string | Label string | Group int

datatype LinkField = Source string | Target string | Relationship string

fun setNodeField :: "NodeField \<Rightarrow> LogicNode \<Rightarrow> LogicNode" where
  "setNodeField (Id v) n = n\<lparr>id_n := v\<rparr>"
| "setNodeField (Label v) n = n\<lparr>label := v\<rparr>"
| "setNodeField (Group v) n = n\<lparr>group_n := v\<rparr>"

fun setLinkField :: "LinkField \<Rightarrow> LogicLink \<Rightarrow> LogicLink" where
  "setLinkField (Source v) l = l\<lparr>source := v\<rparr>"
| "setLinkField (Target v) l = l\<lparr>target := v\<rparr>"
| "setLinkField (Relationship v) l = l\<lparr>relationship := v\<rparr>"

text \<open>
  The editor helpers (lines 154 to 168), each from the scratch copy to the value it
  passes to \<^verbatim>\<open>setEditData\<close>. \<open>now\<close> is the reading of \<^verbatim>\<open>Date.now()\<close>. The index of
  \<^verbatim>\<open>updateNode\<close> and \<^verbatim>\<open>updateLink\<close> is the index of a rendered row, hence within the
  list; beyond it a JavaScript array would grow by an object that holds the one field
  only, which is no value of the interface, and the model leaves the list as it is.
\<close>

definition addNode :: "nat \<Rightarrow> LogicGraphData \<Rightarrow> LogicGraphData" where
  "addNode now ed =
     ed\<lparr>nodes := nodes ed @ [\<lparr>id_n = ''n'' @ decimal now, label = ''New'', group_n = 1\<rparr>]\<rparr>"

definition removeNode :: "nat \<Rightarrow> LogicGraphData \<Rightarrow> LogicGraphData" where
  "removeNode idx ed = ed\<lparr>nodes := filterNotIndex idx (nodes ed)\<rparr>"

definition updateNode :: "nat \<Rightarrow> NodeField \<Rightarrow> LogicGraphData \<Rightarrow> LogicGraphData" where
  "updateNode idx fv ed =
     ed\<lparr>nodes :=
          (if idx < length (nodes ed) then (nodes ed)[idx := setNodeField fv (nodes ed ! idx)]
           else nodes ed)\<rparr>"

definition addLink :: "LogicGraphData \<Rightarrow> LogicGraphData" where
  "addLink ed =
     ed\<lparr>links := links ed @
          [\<lparr>source = (case nodes ed of [] \<Rightarrow> [] | n # _ \<Rightarrow> id_n n), target = [], relationship = []\<rparr>]\<rparr>"

definition removeLink :: "nat \<Rightarrow> LogicGraphData \<Rightarrow> LogicGraphData" where
  "removeLink idx ed = ed\<lparr>links := filterNotIndex idx (links ed)\<rparr>"

definition updateLink :: "nat \<Rightarrow> LinkField \<Rightarrow> LogicGraphData \<Rightarrow> LogicGraphData" where
  "updateLink idx fv ed =
     ed\<lparr>links :=
          (if idx < length (links ed) then (links ed)[idx := setLinkField fv (links ed ! idx)]
           else links ed)\<rparr>"

text \<open>One action in the editor, and a sequence of them on the scratch copy.\<close>

datatype edit =
  AddNode nat
| RemoveNode nat
| UpdateNode nat NodeField
| AddLink
| RemoveLink nat
| UpdateLink nat LinkField

fun applyEdit :: "edit \<Rightarrow> LogicGraphData \<Rightarrow> LogicGraphData" where
  "applyEdit (AddNode now) ed = addNode now ed"
| "applyEdit (RemoveNode idx) ed = removeNode idx ed"
| "applyEdit (UpdateNode idx fv) ed = updateNode idx fv ed"
| "applyEdit AddLink ed = addLink ed"
| "applyEdit (RemoveLink idx) ed = removeLink idx ed"
| "applyEdit (UpdateLink idx fv) ed = updateLink idx fv ed"

text \<open>
  \<^verbatim>\<open>App\<close> with its \<^verbatim>\<open>LogicGraph\<close> mounted: the props of the component are
  \<^verbatim>\<open>data = data.logicGraph\<close> and \<^verbatim>\<open>onUpdate = handleUpdateLogic\<close>.
\<close>

record Session =
  app :: App_state
  graphView :: LogicGraph_state

definition LogicGraph_edits :: "edit list \<Rightarrow> Session \<Rightarrow> Session" where
  "LogicGraph_edits es s =
     s\<lparr>graphView := (graphView s)\<lparr>editData := fold applyEdit es (editData (graphView s))\<rparr>\<rparr>"

text \<open>The button "Edit Logic" and the button "Cancel" (lines 176 and 179).\<close>

definition LogicGraph_edit :: "Session \<Rightarrow> Session" where
  "LogicGraph_edit s = s\<lparr>graphView := (graphView s)\<lparr>isEditing := True\<rparr>\<rparr>"


text \<open>
  The effect \<^verbatim>\<open>useEffect(() => { setEditData(data); }, [data])\<close>: when the prop has
  changed, the scratch copy is set to it.
\<close>

definition LogicGraph_sync :: "Session \<Rightarrow> Session" where
  "LogicGraph_sync s =
     (case data (app s) of
        None \<Rightarrow> s
      | Some d \<Rightarrow> s\<lparr>graphView := (graphView s)\<lparr>editData := logicGraph d\<rparr>\<rparr>)"

text \<open>
  \<^verbatim>\<open>handleSave\<close> (lines 148 to 151): \<^verbatim>\<open>onUpdate(editData)\<close>, \<^verbatim>\<open>setIsEditing(false)\<close>;
  the document's graph is a new object then, so the effect on \<^verbatim>\<open>[data]\<close> runs. This is the
  state that the click writes. The layout effect, which runs in the same render and may
  throw, is \<open>LogicGraph_layout\<close> below; \<open>LogicGraph_save\<close> is the click with both effects.
\<close>

definition handleSave :: "Session \<Rightarrow> Session" where
  "handleSave s =
     LogicGraph_sync
       (s\<lparr>app := handleUpdateLogic (editData (graphView s)) (app s),
          graphView := (graphView s)\<lparr>isEditing := False\<rparr>\<rparr>)"

subsection \<open>The layout effect\<close>

text \<open>
  The lookup of \<^verbatim>\<open>d3.forceLink\<close> with \<^verbatim>\<open>.id(d => d.id)\<close>: the nodes are put into a map
  from id to node (of two nodes with one id the later one stays), and an id that is not in
  the map makes the library throw \<^verbatim>\<open>Error("node not found: " + nodeId)\<close>.
\<close>

definition forceLink_find :: "LogicNode list \<Rightarrow> string \<Rightarrow> js_error + LogicNode" where
  "forceLink_find ns nodeId =
     (case map_of (rev (map (\<lambda>n. (id_n n, n)) ns)) nodeId of
        None \<Rightarrow> Inl (Error (''node not found: '' @ nodeId))
      | Some n \<Rightarrow> Inr n)"

text \<open>
  The initialisation of the link force, which \<^verbatim>\<open>simulation.force("link", ...)\<close> runs: the
  links in their order, of each link first the source, then the target, are replaced by
  the nodes they name. The first id that names no node ends it with the error.
\<close>

fun forceLink_initialize ::
  "LogicNode list \<Rightarrow> LogicLink list \<Rightarrow> js_error + (LogicNode \<times> LogicNode) list" where
  "forceLink_initialize ns [] = Inr []"
| "forceLink_initialize ns (link # rest) =
     (case forceLink_find ns (source link) of
        Inl e \<Rightarrow> Inl e
      | Inr s \<Rightarrow>
          (case forceLink_find ns (target link) of
             Inl e \<Rightarrow> Inl e
           | Inr t \<Rightarrow>
               (case forceLink_initialize ns rest of
                  Inl e \<Rightarrow> Inl e
                | Inr resolved \<Rightarrow> Inr ((s, t) # resolved))))"

text \<open>
  The effect on \<^verbatim>\<open>[data, isEditing]\<close> (lines 20 to 146), up to the construction of the
  simulation: in editing mode it returns at once; otherwise it copies nodes and links and
  builds the simulation with the link force. \<open>Inl e\<close> is the effect throwing \<open>e\<close>;
  \<open>Inr\<close> holds the resolved links when a simulation was built. The drawing and the
  stepping of the simulation that follow are not modelled.
\<close>

definition LogicGraph_layout ::
  "bool \<Rightarrow> LogicGraphData \<Rightarrow> js_error + (LogicNode \<times> LogicNode) list option" where
  "LogicGraph_layout isEditing' data' =
     (if isEditing' then Inr None
      else (case forceLink_initialize (nodes data') (links data') of
              Inl e \<Rightarrow> Inl e
            | Inr resolved \<Rightarrow> Inr (Some resolved)))"

text \<open>
  A click on "Save Changes" with the effects of the render it causes. Nothing in the
  repository catches an error thrown in an effect (there is no error boundary), so React
  unmounts the whole tree: \<open>Inl e\<close> is the application gone after the error \<open>e\<close>.
\<close>

definition LogicGraph_save :: "Session \<Rightarrow> js_error + Session" where
  "LogicGraph_save s =
     (let s' = handleSave s
      in case data (app s') of
           None \<Rightarrow> Inr s'
         | Some d \<Rightarrow>
             (case LogicGraph_layout (isEditing (graphView s')) (logicGraph d) of
                Inl e \<Rightarrow> Inl e
              | Inr layout \<Rightarrow> Inr s'))"

section \<open>Concrete inputs\<close>

text \<open>
  Two image models that fail: one whose request is rejected, one that answers with no
  candidate.
\<close>

definition downModel :: image_model where
  "downModel prompt = Inl (Error ''network'')"

definition emptyModel :: image_model where
  "emptyModel prompt = Inr \<lparr>candidates = Some []\<rparr>"

text \<open>An image model that answers with one inline image.\<close>

definition pngModel :: image_model where
  "pngModel prompt =
     Inr \<lparr>candidates = Some [\<lparr>content = Some \<lparr>parts = Some
       [\<lparr>inlineData = None\<rparr>,
        \<lparr>inlineData = Some \<lparr>mimeType = None, data_b = Some ''iVBORw0KGgo=''\<rparr>\<rparr>]\<rparr>\<rparr>]\<rparr>"

definition panel1 :: ComicPanel where
  "panel1 = \<lparr>panelId = 1, visualPrompt = ''Sun heats the sea'', caption = ''Evaporation'',
             characterDialogue = ''It is getting warm!'', imageUrl = None\<rparr>"

definition panel2 :: ComicPanel where
  "panel2 = \<lparr>panelId = 2, visualPrompt = ''Clouds form'', caption = ''Condensation'',
             characterDialogue = ''Look, a cloud!'', imageUrl = None\<rparr>"

definition vocab1 :: Vocabulary where
  "vocab1 = \<lparr>word = ''vapor'', definition_v = ''water as a gas'',
             example = ''Vapor rises from the sea.'', visualPrompt_v = [], imageUrl_v = None\<rparr>"

definition graph1 :: LogicGraphData where
  "graph1 = \<lparr>nodes = [\<lparr>id_n = ''a'', label = ''Sea'', group_n = 1\<rparr>,
                       \<lparr>id_n = ''b'', label = ''Cloud'', group_n = 2\<rparr>],
             links = [\<lparr>source = ''a'', target = ''b'', relationship = ''evaporates into''\<rparr>]\<rparr>"

definition doc1 :: AnalysisResult where
  "doc1 = \<lparr>summary = ''The water cycle'', comicScript = [panel1, panel2],
           logicGraph = graph1, vocabulary = [vocab1]\<rparr>"

text \<open>
  Two batches of \<^verbatim>\<open>generateImage\<close> calls: in the first the call of index 0 is rejected
  and the others answer with an inline image; in the second every call does.
\<close>

definition rejectFirst :: "nat \<Rightarrow> image_gen" where
  "rejectFirst i prompt =
     (if i = 0 then Inl (Error ''rejected'') else generateImage pngModel prompt)"

definition pngGen :: "nat \<Rightarrow> image_gen" where
  "pngGen i prompt = generateImage pngModel prompt"

text \<open>A batch in which every call goes through \<^verbatim>\<open>generateImage\<close> to the model that is down.\<close>

definition downGen :: "nat \<Rightarrow> image_gen" where
  "downGen i prompt = generateImage downModel prompt"

text \<open>A complete run's state: every panel and vocabulary item has an image.\<close>

definition illustratedDoc :: AnalysisResult where
  "illustratedDoc =
     doc1\<lparr>comicScript := [panel1\<lparr>imageUrl := Some ''data:image/png;base64,AAAA''\<rparr>,
                            panel2\<lparr>imageUrl := Some ''data:image/png;base64,BBBB''\<rparr>],
          vocabulary := [vocab1\<lparr>imageUrl_v := Some ''data:image/png;base64,CCCC''\<rparr>]\<rparr>"

definition illustrated :: App_state where
  "illustrated = \<lparr>appState = COMPLETE, data = Some illustratedDoc, activeTab = Comic,
                   errorMsg = None\<rparr>"

text \<open>
  The edit form opened on the first panel of that state, with a new caption typed in, and
  the state after the first panel has been redrawn while the form was open.
\<close>

definition staleForm :: ComicPanel where
  "staleForm =
     EditForm_setCaption ''A brighter sea''
       (EditForm_mount (panel1\<lparr>imageUrl := Some ''data:image/png;base64,AAAA''\<rparr>))"

definition redrawn :: App_state where
  "redrawn = handleRegeneratePanelImage (generateImage pngModel) 1 (data illustrated) illustrated"

text \<open>The state after a first run has been started.\<close>

definition analyzing :: App_state where
  "analyzing = fst (handleAnalyze_begin ''Water cycle'' None None [] initialApp)"

text \<open>The document of a second analysis.\<close>

definition docB :: AnalysisResult where
  "docB = \<lparr>summary = ''Photosynthesis'',
           comicScript = [\<lparr>panelId = 1, visualPrompt = ''A leaf in the sun'', caption = ''Light'',
                          characterDialogue = ''Lunch time!'', imageUrl = None\<rparr>],
           logicGraph = \<lparr>nodes = [], links = []\<rparr>, vocabulary = []\<rparr>"

text \<open>
  Two runs in flight (the form was submitted twice before the first run began), the
  second completes, the user starts over, then the images of the first run settle.
\<close>

definition twoRuns_reset :: App_state where
  "twoRuns_reset =
     startOver
       (handleAnalyze_images pngGen pngGen [0] [] docB
         (fst (handleAnalyze_analyzed (Inr docB)
           (fst (handleAnalyze_analyzed (Inr doc1)
             (fst (handleAnalyze_begin ''Photosynthesis'' None None []
               (fst (handleAnalyze_begin ''Water cycle'' None None [] initialApp)))))))))"

definition twoRuns_stale :: App_state where
  "twoRuns_stale = handleAnalyze_images pngGen pngGen [1, 0] [0] doc1 twoRuns_reset"

text \<open>
  The graph tab opened on the complete state, and the session after "Edit Logic",
  the removal of the first node, and "Cancel".
\<close>

definition graphTab :: Session where
  "graphTab = \<lparr>app = illustrated\<lparr>activeTab := Logic\<rparr>,
               graphView = LogicGraph_mount (logicGraph illustratedDoc)\<rparr>"






section \<open>Lists of known length\<close>

lemma list2_nth: "length xs = 2 \<Longrightarrow> xs = [xs ! 0, xs ! 1]"
  by (cases xs; cases "tl xs") auto

lemma list1_nth: "length xs = 1 \<Longrightarrow> xs = [xs ! 0]"
  by (cases xs) auto

section \<open>The image service never rejects\<close>

lemma firstInlineImage_None_iff:
  "firstInlineImage ps = None \<longleftrightarrow> list_all (\<lambda>p. \<not> hasInlineData p) ps"
  by (induction ps) (auto simp: hasInlineData_def split: option.splits)

lemma generateImage_try_no_image:
  assumes "ai (finalPrompt prompt) = Inr r"
    and "case responseParts r of None \<Rightarrow> True | Some ps \<Rightarrow> list_all (\<lambda>p. \<not> hasInlineData p) ps"
  shows "generateImage_try ai prompt = Inl (Error ''No image data returned'')"
  using assms
  by (auto simp: generateImage_try_def firstInlineImage_None_iff [symmetric] split: option.splits)

lemma panelJob_generateImage:
  "panelJob (generateImage ai) panel =
     panel\<lparr>imageUrl := Some (case generateImage_try ai (visualPrompt panel) of
                               Inl e \<Rightarrow> placeholderUrl | Inr url \<Rightarrow> url)\<rparr>"
  by (simp add: panelJob_def generateImage_def split: sum.splits)

lemma vocabJob_generateImage:
  "vocabJob (generateImage ai) v =
     v\<lparr>imageUrl_v := Some (case generateImage_try ai (vocabPrompt v) of
                             Inl e \<Rightarrow> placeholderUrl | Inr url \<Rightarrow> url)\<rparr>"
  by (simp add: vocabJob_def generateImage_def split: sum.splits)

text \<open>
  Claim C10. For every prompt and every behaviour of the image model, \<^verbatim>\<open>generateImage\<close>
  fulfils and never rejects. When the model request is rejected, and when the response
  holds no part with inline image data, it fulfils with the fixed placeholder URL. Hence
  a panel or a vocabulary item passed through it always receives an image value.
\<close>

theorem generateImage_absorbs_every_failure:
  "(\<exists>url. generateImage ai prompt = Inr url)
   \<and> (\<forall>e. ai (finalPrompt prompt) = Inl e \<longrightarrow>
          generateImage ai prompt =
            Inr ''https://picsum.photos/400/300?blur=2&text=Image+Gen+Failed'')
   \<and> (\<forall>r. ai (finalPrompt prompt) = Inr r
          \<and> (case responseParts r of None \<Rightarrow> True
              | Some ps \<Rightarrow> list_all (\<lambda>p. \<not> hasInlineData p) ps) \<longrightarrow>
          generateImage ai prompt =
            Inr ''https://picsum.photos/400/300?blur=2&text=Image+Gen+Failed'')
   \<and> (\<exists>url. imageUrl (panelJob (generateImage ai) panel) = Some url)
   \<and> (\<exists>url. imageUrl_v (vocabJob (generateImage ai) v) = Some url)"
proof (intro conjI allI impI)
  show "\<exists>url. generateImage ai prompt = Inr url"
    by (simp add: generateImage_def split: sum.splits)
next
  fix e assume "ai (finalPrompt prompt) = Inl e"
  then have "generateImage_try ai prompt = Inl e"
    by (simp add: generateImage_try_def)
  then show "generateImage ai prompt =
      Inr ''https://picsum.photos/400/300?blur=2&text=Image+Gen+Failed''"
    by (simp add: generateImage_def placeholderUrl_def)
next
  fix r
  assume "ai (finalPrompt prompt) = Inr r
      \<and> (case responseParts r of None \<Rightarrow> True
          | Some ps \<Rightarrow> list_all (\<lambda>p. \<not> hasInlineData p) ps)"
  then have "generateImage_try ai prompt = Inl (Error ''No image data returned'')"
    by (simp add: generateImage_try_no_image)
  then show "generateImage ai prompt =
      Inr ''https://picsum.photos/400/300?blur=2&text=Image+Gen+Failed''"
    by (simp add: generateImage_def placeholderUrl_def)
next
  show "\<exists>url. imageUrl (panelJob (generateImage ai) panel) = Some url"
    by (simp add: panelJob_generateImage)
next
  show "\<exists>url. imageUrl_v (vocabJob (generateImage ai) v) = Some url"
    by (simp add: vocabJob_generateImage)
qed

text \<open>Witness for C10: a rejected request and a response with no candidate.\<close>

theorem generateImage_absorbs_every_failure_witness:
  "downModel (finalPrompt ''Clouds form'') = Inl (Error ''network'')
   \<and> generateImage downModel ''Clouds form'' =
       Inr ''https://picsum.photos/400/300?blur=2&text=Image+Gen+Failed''
   \<and> emptyModel (finalPrompt ''Clouds form'') = Inr \<lparr>candidates = Some []\<rparr>
   \<and> responseParts \<lparr>candidates = Some []\<rparr> = None
   \<and> generateImage emptyModel ''Clouds form'' =
       Inr ''https://picsum.photos/400/300?blur=2&text=Image+Gen+Failed''
   \<and> imageUrl (panelJob (generateImage downModel) panel2) =
       Some ''https://picsum.photos/400/300?blur=2&text=Image+Gen+Failed''"
  using generateImage_absorbs_every_failure [of downModel "''Clouds form''" panel2 vocab1]
    generateImage_absorbs_every_failure [of emptyModel "''Clouds form''" panel2 vocab1]
  by (simp add: downModel_def emptyModel_def responseParts_def panelJob_generateImage
      generateImage_try_def placeholderUrl_def)

section \<open>The image fan-out\<close>

subsection \<open>Promise.all\<close>

lemma those_map_Some: "those (map Some xs) = Some xs"
  by (induction xs) auto

lemma those_None: "None \<in> set xs \<Longrightarrow> those xs = None"
  by (induction xs) (auto split: option.splits)

lemma length_fold_settle:
  "length (fold (promiseAll_settle vals) order slots) = length slots"
  by (induction order arbitrary: slots) (auto simp: promiseAll_settle_def)

lemma nth_fold_settle:
  "length slots = length vals \<Longrightarrow> i < length vals \<Longrightarrow>
   fold (promiseAll_settle vals) order slots ! i =
     (if i \<in> set order then Some (vals ! i) else slots ! i)"
proof (induction order arbitrary: slots)
  case Nil
  then show ?case by simp
next
  case (Cons j order)
  have len: "length (promiseAll_settle vals j slots) = length vals"
    using Cons.prems(1) by (simp add: promiseAll_settle_def)
  show ?case
    using Cons.IH [OF len Cons.prems(2)] Cons.prems
    by (auto simp: promiseAll_settle_def nth_list_update)
qed

lemma allSettled_iff: "allSettled n order \<longleftrightarrow> (\<forall>i<n. i \<in> set order)"
  by (auto simp: allSettled_def list_all_iff)

lemma promiseAll_all_settled:
  assumes "allSettled (length vals) order"
  shows "promiseAll vals order = Some vals"
proof -
  let ?s = "fold (promiseAll_settle vals) order (replicate (length vals) None)"
  have "?s = map Some vals"
  proof (rule nth_equalityI)
    show "length ?s = length (map Some vals)" by (simp add: length_fold_settle)
  next
    fix i assume "i < length ?s"
    then have i: "i < length vals" by (simp add: length_fold_settle)
    with assms have "i \<in> set order" by (simp add: allSettled_iff)
    with i show "?s ! i = map Some vals ! i" by (simp add: nth_fold_settle)
  qed
  then show ?thesis by (simp add: promiseAll_def those_map_Some)
qed

lemma promiseAll_pending:
  assumes "\<not> allSettled (length vals) order"
  shows "promiseAll vals order = None"
proof -
  from assms obtain i where i: "i < length vals" "i \<notin> set order"
    by (auto simp: allSettled_iff)
  let ?s = "fold (promiseAll_settle vals) order (replicate (length vals) None)"
  have "?s ! i = None" using i by (simp add: nth_fold_settle)
  moreover have "i < length ?s" using i by (simp add: length_fold_settle)
  ultimately have "None \<in> set ?s" by (metis nth_mem)
  then show ?thesis by (simp add: promiseAll_def those_None)
qed

lemma promiseAll_eq:
  "promiseAll vals order = (if allSettled (length vals) order then Some vals else None)"
  by (simp add: promiseAll_all_settled promiseAll_pending)

subsection \<open>The two batches\<close>

lemma length_comicPromises [simp]: "length (comicPromises gen ps) = length ps"
  by (simp add: comicPromises_def)

lemma length_vocabPromises [simp]: "length (vocabPromises gen vs) = length vs"
  by (simp add: vocabPromises_def)

lemma nth_comicPromises:
  "k < length ps \<Longrightarrow> comicPromises gen ps ! k = panelJob (gen k) (ps ! k)"
  by (simp add: comicPromises_def)

lemma nth_vocabPromises:
  "k < length vs \<Longrightarrow> vocabPromises gen vs ! k = vocabJob (gen k) (vs ! k)"
  by (simp add: vocabPromises_def)

lemma panelJob_cases:
  "panelJob gen p = p \<or> (\<exists>url. panelJob gen p = p\<lparr>imageUrl := Some url\<rparr>)"
  by (auto simp: panelJob_def split: sum.splits)

lemma vocabJob_cases:
  "vocabJob gen v = v \<or> (\<exists>url. vocabJob gen v = v\<lparr>imageUrl_v := Some url\<rparr>)"
  by (auto simp: vocabJob_def split: sum.splits)

lemma panelId_panelJob [simp]: "panelId (panelJob gen p) = panelId p"
  by (simp add: panelJob_def split: sum.splits)

lemma word_vocabJob [simp]: "word (vocabJob gen v) = word v"
  by (simp add: vocabJob_def split: sum.splits)

lemma map_panelId_comicPromises: "map panelId (comicPromises gen ps) = map panelId ps"
  by (rule nth_equalityI) (simp_all add: nth_comicPromises)

lemma map_word_vocabPromises: "map word (vocabPromises gen vs) = map word vs"
  by (rule nth_equalityI) (simp_all add: nth_vocabPromises)

subsection \<open>A whole run\<close>


lemma handleAnalyze_settled:
  assumes "allSettled (length (comicScript result)) orderP"
    and "allSettled (length (vocabulary result)) orderV"
  shows "handleAnalyze t i m c (Inr result) genP genV orderP orderV st =
     st\<lparr>appState := COMPLETE, errorMsg := None,
        data := Some (result\<lparr>comicScript := comicPromises genP (comicScript result),
                            vocabulary := vocabPromises genV (vocabulary result)\<rparr>)\<rparr>"
  using assms
  by (simp add: handleAnalyze_def handleAnalyze_begin_def handleAnalyze_analyzed_def
      handleAnalyze_images_def handleAnalyze_merge_def promiseAll_eq)

lemma handleAnalyze_pending:
  assumes "\<not> (allSettled (length (comicScript result)) orderP
      \<and> allSettled (length (vocabulary result)) orderV)"
  shows "handleAnalyze t i m c (Inr result) genP genV orderP orderV st =
     st\<lparr>appState := GENERATING_IMAGES, errorMsg := None, data := Some result\<rparr>"
  using assms
  by (auto simp: handleAnalyze_def handleAnalyze_begin_def handleAnalyze_analyzed_def
      handleAnalyze_images_def promiseAll_eq)


text \<open>
  Claim C3. A batch over \<open>N\<close> items has \<open>N\<close> results; the result at index \<open>k\<close> is
  the item at index \<open>k\<close>, either unchanged or with an image reference set. The joined
  promise fulfils with exactly this list whatever the order in which the requests
  settle, and it stays pending as long as one request has not settled. Hence a run in
  which every request settles ends \<^verbatim>\<open>COMPLETE\<close> with the panels and the vocabulary of the
  analysis in their order, with their ids and words; otherwise the run stays in
  \<^verbatim>\<open>GENERATING_IMAGES\<close> with the document as analysed.
\<close>

theorem fanout_keeps_order_and_identity:
  "length (comicPromises genP ps) = length ps
   \<and> length (vocabPromises genV vs) = length vs
   \<and> (\<forall>k<length ps. comicPromises genP ps ! k = ps ! k
          \<or> (\<exists>url. comicPromises genP ps ! k = (ps ! k)\<lparr>imageUrl := Some url\<rparr>))
   \<and> (\<forall>k<length vs. vocabPromises genV vs ! k = vs ! k
          \<or> (\<exists>url. vocabPromises genV vs ! k = (vs ! k)\<lparr>imageUrl_v := Some url\<rparr>))
   \<and> promiseAll (comicPromises genP ps) order =
        (if allSettled (length ps) order then Some (comicPromises genP ps) else None)
   \<and> promiseAll (vocabPromises genV vs) order' =
        (if allSettled (length vs) order' then Some (vocabPromises genV vs) else None)
   \<and> (allSettled (length (comicScript result)) orderP
        \<and> allSettled (length (vocabulary result)) orderV \<longrightarrow>
       appState (handleAnalyze t i m c (Inr result) genP genV orderP orderV st) = COMPLETE
       \<and> data (handleAnalyze t i m c (Inr result) genP genV orderP orderV st) =
           Some (result\<lparr>comicScript := comicPromises genP (comicScript result),
                         vocabulary := vocabPromises genV (vocabulary result)\<rparr>)
       \<and> map panelId (comicPromises genP (comicScript result)) = map panelId (comicScript result)
       \<and> map word (vocabPromises genV (vocabulary result)) = map word (vocabulary result))
   \<and> (\<not> (allSettled (length (comicScript result)) orderP
           \<and> allSettled (length (vocabulary result)) orderV) \<longrightarrow>
       appState (handleAnalyze t i m c (Inr result) genP genV orderP orderV st) = GENERATING_IMAGES
       \<and> data (handleAnalyze t i m c (Inr result) genP genV orderP orderV st) = Some result)"
proof (intro conjI allI impI)
  fix k assume "k < length ps"
  then show "comicPromises genP ps ! k = ps ! k
      \<or> (\<exists>url. comicPromises genP ps ! k = (ps ! k)\<lparr>imageUrl := Some url\<rparr>)"
    using panelJob_cases [of "genP k" "ps ! k"] by (simp add: nth_comicPromises)
next
  fix k assume "k < length vs"
  then show "vocabPromises genV vs ! k = vs ! k
      \<or> (\<exists>url. vocabPromises genV vs ! k = (vs ! k)\<lparr>imageUrl_v := Some url\<rparr>)"
    using vocabJob_cases [of "genV k" "vs ! k"] by (simp add: nth_vocabPromises)
next
  show "promiseAll (comicPromises genP ps) order =
      (if allSettled (length ps) order then Some (comicPromises genP ps) else None)"
    using promiseAll_eq [of "comicPromises genP ps" order] by simp
next
  show "promiseAll (vocabPromises genV vs) order' =
      (if allSettled (length vs) order' then Some (vocabPromises genV vs) else None)"
    using promiseAll_eq [of "vocabPromises genV vs" order'] by simp
next
  assume a: "allSettled (length (comicScript result)) orderP
      \<and> allSettled (length (vocabulary result)) orderV"
  show "appState (handleAnalyze t i m c (Inr result) genP genV orderP orderV st) = COMPLETE"
    using a by (simp add: handleAnalyze_settled)
  show "data (handleAnalyze t i m c (Inr result) genP genV orderP orderV st) =
      Some (result\<lparr>comicScript := comicPromises genP (comicScript result),
                    vocabulary := vocabPromises genV (vocabulary result)\<rparr>)"
    using a by (simp add: handleAnalyze_settled)
next
  assume a: "\<not> (allSettled (length (comicScript result)) orderP
      \<and> allSettled (length (vocabulary result)) orderV)"
  show "appState (handleAnalyze t i m c (Inr result) genP genV orderP orderV st) = GENERATING_IMAGES"
    using handleAnalyze_pending [OF a, of t i m c genP genV st] by simp
  show "data (handleAnalyze t i m c (Inr result) genP genV orderP orderV st) = Some result"
    using handleAnalyze_pending [OF a, of t i m c genP genV st] by simp
qed (simp_all add: map_panelId_comicPromises map_word_vocabPromises)

lemma comicPromises_eval:
  "comicPromises rejectFirst (comicScript doc1) =
     [panel1, panel2\<lparr>imageUrl := Some ''data:image/png;base64,iVBORw0KGgo=''\<rparr>]"
  by (simp add: doc1_def comicPromises_def upt_rec panelJob_def rejectFirst_def generateImage_def
      generateImage_try_def pngModel_def responseParts_def panel2_def)

text \<open>
  Witness for C3: two panels, the first call rejected, the calls settling in the order
  1, 0; and the same batch with the call of index 0 never settling.
\<close>

theorem fanout_keeps_order_and_identity_witness:
  "allSettled (length (comicScript doc1)) [1, 0]
   \<and> allSettled (length (vocabulary doc1)) [0]
   \<and> promiseAll (comicPromises rejectFirst (comicScript doc1)) [1, 0] =
       Some [panel1, panel2\<lparr>imageUrl := Some ''data:image/png;base64,iVBORw0KGgo=''\<rparr>]
   \<and> appState (handleAnalyze ''Water cycle'' None None [] (Inr doc1) rejectFirst pngGen
         [1, 0] [0] initialApp) = COMPLETE
   \<and> map panelId (comicPromises rejectFirst (comicScript doc1)) = [1, 2]
   \<and> map word (vocabPromises pngGen (vocabulary doc1)) = [''vapor'']
   \<and> \<not> allSettled (length (comicScript doc1)) [1]
   \<and> promiseAll (comicPromises rejectFirst (comicScript doc1)) [1] = None
   \<and> appState (handleAnalyze ''Water cycle'' None None [] (Inr doc1) rejectFirst pngGen
         [1] [0] initialApp) = GENERATING_IMAGES"
proof -
  have sP: "allSettled (length (comicScript doc1)) [1, 0]"
    and sV: "allSettled (length (vocabulary doc1)) [0]"
    and nP: "\<not> allSettled (length (comicScript doc1)) [1]"
    by (simp_all add: doc1_def allSettled_def upt_rec)
  note all_settled =
    fanout_keeps_order_and_identity [where genP = rejectFirst and ps = "comicScript doc1"
      and genV = pngGen and vs = "vocabulary doc1" and order = "[1, 0]" and order' = "[0]"
      and result = doc1 and orderP = "[1, 0]" and orderV = "[0]" and t = "''Water cycle''"
      and i = None and m = None and c = "[]" and st = initialApp]
  note one_pending =
    fanout_keeps_order_and_identity [where genP = rejectFirst and ps = "comicScript doc1"
      and genV = pngGen and vs = "vocabulary doc1" and order = "[1]" and order' = "[0]"
      and result = doc1 and orderP = "[1]" and orderV = "[0]" and t = "''Water cycle''"
      and i = None and m = None and c = "[]" and st = initialApp]
  have joined: "promiseAll (comicPromises rejectFirst (comicScript doc1)) [1, 0] =
      Some (comicPromises rejectFirst (comicScript doc1))"
    using all_settled sP by presburger
  have complete: "appState (handleAnalyze ''Water cycle'' None None [] (Inr doc1) rejectFirst
      pngGen [1, 0] [0] initialApp) = COMPLETE"
    and ids: "map panelId (comicPromises rejectFirst (comicScript doc1)) =
      map panelId (comicScript doc1)"
    and words: "map word (vocabPromises pngGen (vocabulary doc1)) = map word (vocabulary doc1)"
    using all_settled sP sV by blast+
  have pending: "promiseAll (comicPromises rejectFirst (comicScript doc1)) [1] = None"
    using one_pending nP by presburger
  have stuck: "appState (handleAnalyze ''Water cycle'' None None [] (Inr doc1) rejectFirst
      pngGen [1] [0] initialApp) = GENERATING_IMAGES"
    using one_pending nP by blast
  have joined': "promiseAll (comicPromises rejectFirst (comicScript doc1)) [1, 0] =
      Some [panel1, panel2\<lparr>imageUrl := Some ''data:image/png;base64,iVBORw0KGgo=''\<rparr>]"
    using joined by (simp only: comicPromises_eval)
  have ids': "map panelId (comicPromises rejectFirst (comicScript doc1)) = [1, 2]"
    using ids by (simp add: doc1_def panel1_def panel2_def)
  have words': "map word (vocabPromises pngGen (vocabulary doc1)) = [''vapor'']"
    using words by (simp add: doc1_def vocab1_def)
  show ?thesis
    by (intro conjI; fact)
qed

section \<open>Failed image calls in a run\<close>

lemma panelJob_rejected: "gen (visualPrompt p) = Inl e \<Longrightarrow> panelJob gen p = p"
  by (simp add: panelJob_def)

lemma panelJob_fulfilled:
  "gen (visualPrompt p) = Inr url \<Longrightarrow> panelJob gen p = p\<lparr>imageUrl := Some url\<rparr>"
  by (simp add: panelJob_def)

lemma vocabJob_rejected: "gen (vocabPrompt v) = Inl e \<Longrightarrow> vocabJob gen v = v"
  by (simp add: vocabJob_def)

lemma vocabJob_fulfilled:
  "gen (vocabPrompt v) = Inr url \<Longrightarrow> vocabJob gen v = v\<lparr>imageUrl_v := Some url\<rparr>"
  by (simp add: vocabJob_def)

lemma generateImage_model_failed:
  "generateImage_try ai p = Inl e \<Longrightarrow> generateImage ai p = Inr placeholderUrl"
  by (simp add: generateImage_def)

text \<open>
  Counterexample to C1 as stated. The image model is down, so the synthesis of every
  image fails; the run still stores an image for every panel and vocabulary item, the
  placeholder URL, and no item keeps its state without an image.
\<close>

theorem failed_synthesis_gets_placeholder_image:
  "generateImage_try downModel (visualPrompt panel1) = Inl (Error ''network'')
   \<and> generateImage_try downModel (visualPrompt panel2) = Inl (Error ''network'')
   \<and> generateImage_try downModel (vocabPrompt vocab1) = Inl (Error ''network'')
   \<and> allSettled (length (comicScript doc1)) [0, 1]
   \<and> allSettled (length (vocabulary doc1)) [0]
   \<and> data (handleAnalyze ''Water cycle'' None None [] (Inr doc1) downGen downGen [0, 1] [0]
         initialApp) =
       Some (doc1\<lparr>comicScript :=
                     [panel1\<lparr>imageUrl := Some ''https://picsum.photos/400/300?blur=2&text=Image+Gen+Failed''\<rparr>,
                      panel2\<lparr>imageUrl := Some ''https://picsum.photos/400/300?blur=2&text=Image+Gen+Failed''\<rparr>],
                   vocabulary :=
                     [vocab1\<lparr>imageUrl_v := Some ''https://picsum.photos/400/300?blur=2&text=Image+Gen+Failed''\<rparr>]\<rparr>)
   \<and> panel1\<lparr>imageUrl := Some ''https://picsum.photos/400/300?blur=2&text=Image+Gen+Failed''\<rparr> \<noteq> panel1"
proof -
  have sP: "allSettled (length (comicScript doc1)) [0, 1]"
    and sV: "allSettled (length (vocabulary doc1)) [0]"
    by (simp_all add: doc1_def allSettled_def upt_rec)
  have t1: "generateImage_try downModel (visualPrompt panel1) = Inl (Error ''network'')"
    and t2: "generateImage_try downModel (visualPrompt panel2) = Inl (Error ''network'')"
    and t3: "generateImage_try downModel (vocabPrompt vocab1) = Inl (Error ''network'')"
    by (simp_all add: generateImage_try_def downModel_def)
  have P: "comicPromises downGen (comicScript doc1) =
      [panel1\<lparr>imageUrl := Some placeholderUrl\<rparr>, panel2\<lparr>imageUrl := Some placeholderUrl\<rparr>]"
    by (simp add: doc1_def comicPromises_def upt_rec panelJob_def downGen_def
        generateImage_model_failed [OF t1] generateImage_model_failed [OF t2])
  have V: "vocabPromises downGen (vocabulary doc1) = [vocab1\<lparr>imageUrl_v := Some placeholderUrl\<rparr>]"
    by (simp add: doc1_def vocabPromises_def upt_rec vocabJob_def downGen_def
        generateImage_model_failed [OF t3])
  have run: "data (handleAnalyze ''Water cycle'' None None [] (Inr doc1) downGen downGen [0, 1] [0]
         initialApp) =
       Some (doc1\<lparr>comicScript :=
                     [panel1\<lparr>imageUrl := Some ''https://picsum.photos/400/300?blur=2&text=Image+Gen+Failed''\<rparr>,
                      panel2\<lparr>imageUrl := Some ''https://picsum.photos/400/300?blur=2&text=Image+Gen+Failed''\<rparr>],
                   vocabulary :=
                     [vocab1\<lparr>imageUrl_v := Some ''https://picsum.photos/400/300?blur=2&text=Image+Gen+Failed''\<rparr>]\<rparr>)"
    by (simp only: handleAnalyze_settled [OF sP sV]) (simp add: P V placeholderUrl_def)
  have changed: "panel1\<lparr>imageUrl := Some ''https://picsum.photos/400/300?blur=2&text=Image+Gen+Failed''\<rparr> \<noteq> panel1"
    by (simp add: panel1_def)
  show ?thesis
    by (intro conjI; fact)
qed

text \<open>
  Claim C1, amended. In a run that reaches the merge the final state is \<^verbatim>\<open>COMPLETE\<close>
  with no error message and no error banner. An item whose \<^verbatim>\<open>generateImage\<close> call
  is rejected keeps its prior state; an item whose call fulfils gets the fulfilled value
  as its image. The \<^verbatim>\<open>generateImage\<close> of the repository fulfils with the placeholder
  URL when its model request fails, so such an item gets the placeholder as its image.
\<close>

theorem failed_image_calls_are_absorbed:
  assumes "allSettled (length (comicScript result)) orderP"
    and "allSettled (length (vocabulary result)) orderV"
  shows "\<exists>panelsWithImages vocabWithImages.
      handleAnalyze t i m c (Inr result) genP genV orderP orderV st =
        st\<lparr>appState := COMPLETE, errorMsg := None,
           data := Some (result\<lparr>comicScript := panelsWithImages,
                               vocabulary := vocabWithImages\<rparr>)\<rparr>
      \<and> \<not> errorBannerShown (handleAnalyze t i m c (Inr result) genP genV orderP orderV st)
      \<and> length panelsWithImages = length (comicScript result)
      \<and> length vocabWithImages = length (vocabulary result)
      \<and> (\<forall>k<length (comicScript result).
            (\<forall>e. genP k (visualPrompt (comicScript result ! k)) = Inl e \<longrightarrow>
                 panelsWithImages ! k = comicScript result ! k)
          \<and> (\<forall>url. genP k (visualPrompt (comicScript result ! k)) = Inr url \<longrightarrow>
                 panelsWithImages ! k = (comicScript result ! k)\<lparr>imageUrl := Some url\<rparr>)
          \<and> (\<forall>ai e. genP k = generateImage ai
                 \<and> generateImage_try ai (visualPrompt (comicScript result ! k)) = Inl e \<longrightarrow>
                 panelsWithImages ! k =
                   (comicScript result ! k)\<lparr>imageUrl := Some placeholderUrl\<rparr>))
      \<and> (\<forall>k<length (vocabulary result).
            (\<forall>e. genV k (vocabPrompt (vocabulary result ! k)) = Inl e \<longrightarrow>
                 vocabWithImages ! k = vocabulary result ! k)
          \<and> (\<forall>url. genV k (vocabPrompt (vocabulary result ! k)) = Inr url \<longrightarrow>
                 vocabWithImages ! k = (vocabulary result ! k)\<lparr>imageUrl_v := Some url\<rparr>)
          \<and> (\<forall>ai e. genV k = generateImage ai
                 \<and> generateImage_try ai (vocabPrompt (vocabulary result ! k)) = Inl e \<longrightarrow>
                 vocabWithImages ! k =
                   (vocabulary result ! k)\<lparr>imageUrl_v := Some placeholderUrl\<rparr>))"
proof (intro exI conjI allI impI)
  show "handleAnalyze t i m c (Inr result) genP genV orderP orderV st =
      st\<lparr>appState := COMPLETE, errorMsg := None,
         data := Some (result\<lparr>comicScript := comicPromises genP (comicScript result),
                             vocabulary := vocabPromises genV (vocabulary result)\<rparr>)\<rparr>"
    by (rule handleAnalyze_settled [OF assms])
  then show "\<not> errorBannerShown (handleAnalyze t i m c (Inr result) genP genV orderP orderV st)"
    by (simp add: errorBannerShown_def)
next
  fix k e
  assume "k < length (comicScript result)"
    and "genP k (visualPrompt (comicScript result ! k)) = Inl e"
  then show "comicPromises genP (comicScript result) ! k = comicScript result ! k"
    by (simp add: nth_comicPromises panelJob_rejected)
next
  fix k url
  assume "k < length (comicScript result)"
    and "genP k (visualPrompt (comicScript result ! k)) = Inr url"
  then show "comicPromises genP (comicScript result) ! k =
      (comicScript result ! k)\<lparr>imageUrl := Some url\<rparr>"
    by (simp add: nth_comicPromises panelJob_fulfilled)
next
  fix k ai e
  assume k: "k < length (comicScript result)"
    and g: "genP k = generateImage ai
      \<and> generateImage_try ai (visualPrompt (comicScript result ! k)) = Inl e"
  then have "genP k (visualPrompt (comicScript result ! k)) = Inr placeholderUrl"
    by (simp add: generateImage_model_failed)
  with k show "comicPromises genP (comicScript result) ! k =
      (comicScript result ! k)\<lparr>imageUrl := Some placeholderUrl\<rparr>"
    by (simp add: nth_comicPromises panelJob_fulfilled)
next
  fix k e
  assume "k < length (vocabulary result)"
    and "genV k (vocabPrompt (vocabulary result ! k)) = Inl e"
  then show "vocabPromises genV (vocabulary result) ! k = vocabulary result ! k"
    by (simp add: nth_vocabPromises vocabJob_rejected)
next
  fix k url
  assume "k < length (vocabulary result)"
    and "genV k (vocabPrompt (vocabulary result ! k)) = Inr url"
  then show "vocabPromises genV (vocabulary result) ! k =
      (vocabulary result ! k)\<lparr>imageUrl_v := Some url\<rparr>"
    by (simp add: nth_vocabPromises vocabJob_fulfilled)
next
  fix k ai e
  assume k: "k < length (vocabulary result)"
    and g: "genV k = generateImage ai
      \<and> generateImage_try ai (vocabPrompt (vocabulary result ! k)) = Inl e"
  then have "genV k (vocabPrompt (vocabulary result ! k)) = Inr placeholderUrl"
    by (simp add: generateImage_model_failed)
  with k show "vocabPromises genV (vocabulary result) ! k =
      (vocabulary result ! k)\<lparr>imageUrl_v := Some placeholderUrl\<rparr>"
    by (simp add: nth_vocabPromises vocabJob_fulfilled)
qed simp_all


text \<open>
  Witness for the amended C1: the first panel's call is rejected, the second fulfils,
  the model is down for the vocabulary item.
\<close>

theorem failed_image_calls_are_absorbed_witness:
  "allSettled (length (comicScript doc1)) [1, 0]
   \<and> allSettled (length (vocabulary doc1)) [0]
   \<and> rejectFirst 0 (visualPrompt panel1) = Inl (Error ''rejected'')
   \<and> rejectFirst 1 (visualPrompt panel2) = Inr ''data:image/png;base64,iVBORw0KGgo=''
   \<and> generateImage_try downModel (vocabPrompt vocab1) = Inl (Error ''network'')
   \<and> handleAnalyze ''Water cycle'' None None [] (Inr doc1) rejectFirst downGen [1, 0] [0]
         initialApp =
       initialApp\<lparr>appState := COMPLETE, errorMsg := None,
         data := Some (doc1\<lparr>comicScript :=
                   [panel1, panel2\<lparr>imageUrl := Some ''data:image/png;base64,iVBORw0KGgo=''\<rparr>],
                 vocabulary := [vocab1\<lparr>imageUrl_v := Some placeholderUrl\<rparr>]\<rparr>)\<rparr>"
proof -
  have sP: "allSettled (length (comicScript doc1)) [1, 0]"
    and sV: "allSettled (length (vocabulary doc1)) [0]"
    by (simp_all add: doc1_def allSettled_def upt_rec)
  have g0: "rejectFirst 0 (visualPrompt panel1) = Inl (Error ''rejected'')"
    by (simp add: rejectFirst_def)
  have g1: "rejectFirst 1 (visualPrompt panel2) = Inr ''data:image/png;base64,iVBORw0KGgo=''"
    by (simp add: rejectFirst_def generateImage_def generateImage_try_def pngModel_def
        responseParts_def)
  have v0: "generateImage_try downModel (vocabPrompt vocab1) = Inl (Error ''network'')"
    by (simp add: generateImage_try_def downModel_def)
  have dg: "downGen 0 = generateImage downModel"
    by (rule ext) (simp add: downGen_def)
  have nP: "comicScript doc1 ! 0 = panel1" "comicScript doc1 ! 1 = panel2"
    "length (comicScript doc1) = 2"
    and nV: "vocabulary doc1 ! 0 = vocab1" "length (vocabulary doc1) = 1"
    by (simp_all add: doc1_def)
  from failed_image_calls_are_absorbed [OF sP sV, of "''Water cycle''" None None "[]"
      rejectFirst downGen initialApp]
  obtain P V where
    run: "handleAnalyze ''Water cycle'' None None [] (Inr doc1) rejectFirst downGen [1, 0] [0]
         initialApp =
       initialApp\<lparr>appState := COMPLETE, errorMsg := None,
         data := Some (doc1\<lparr>comicScript := P, vocabulary := V\<rparr>)\<rparr>"
    and lenP: "length P = length (comicScript doc1)"
    and lenV: "length V = length (vocabulary doc1)"
    and panels: "\<forall>k<length (comicScript doc1).
            (\<forall>e. rejectFirst k (visualPrompt (comicScript doc1 ! k)) = Inl e \<longrightarrow>
                 P ! k = comicScript doc1 ! k)
          \<and> (\<forall>url. rejectFirst k (visualPrompt (comicScript doc1 ! k)) = Inr url \<longrightarrow>
                 P ! k = (comicScript doc1 ! k)\<lparr>imageUrl := Some url\<rparr>)
          \<and> (\<forall>ai e. rejectFirst k = generateImage ai
                 \<and> generateImage_try ai (visualPrompt (comicScript doc1 ! k)) = Inl e \<longrightarrow>
                 P ! k = (comicScript doc1 ! k)\<lparr>imageUrl := Some placeholderUrl\<rparr>)"
    and vocab: "\<forall>k<length (vocabulary doc1).
            (\<forall>e. downGen k (vocabPrompt (vocabulary doc1 ! k)) = Inl e \<longrightarrow>
                 V ! k = vocabulary doc1 ! k)
          \<and> (\<forall>url. downGen k (vocabPrompt (vocabulary doc1 ! k)) = Inr url \<longrightarrow>
                 V ! k = (vocabulary doc1 ! k)\<lparr>imageUrl_v := Some url\<rparr>)
          \<and> (\<forall>ai e. downGen k = generateImage ai
                 \<and> generateImage_try ai (vocabPrompt (vocabulary doc1 ! k)) = Inl e \<longrightarrow>
                 V ! k = (vocabulary doc1 ! k)\<lparr>imageUrl_v := Some placeholderUrl\<rparr>)"
    by blast
  have "0 < length (comicScript doc1)" and "1 < length (comicScript doc1)"
    and "0 < length (vocabulary doc1)"
    by (simp_all add: nP nV)
  then have P0: "P ! 0 = panel1"
    and P1: "P ! 1 = panel2\<lparr>imageUrl := Some ''data:image/png;base64,iVBORw0KGgo=''\<rparr>"
    and V0: "V ! 0 = vocab1\<lparr>imageUrl_v := Some placeholderUrl\<rparr>"
    using panels vocab g0 g1 v0 dg nP nV by metis+
  have l2: "length P = 2" and l1: "length V = 1"
    using lenP lenV nP(3) nV(2) by simp_all
  have "P = [P ! 0, P ! 1]" by (rule list2_nth [OF l2])
  moreover have "V = [V ! 0]" by (rule list1_nth [OF l1])
  moreover note P0 P1 V0
  ultimately have PV: "P = [panel1, panel2\<lparr>imageUrl := Some ''data:image/png;base64,iVBORw0KGgo=''\<rparr>]"
    "V = [vocab1\<lparr>imageUrl_v := Some placeholderUrl\<rparr>]"
    by simp_all
  have final: "handleAnalyze ''Water cycle'' None None [] (Inr doc1) rejectFirst downGen [1, 0] [0]
         initialApp =
       initialApp\<lparr>appState := COMPLETE, errorMsg := None,
         data := Some (doc1\<lparr>comicScript :=
                   [panel1, panel2\<lparr>imageUrl := Some ''data:image/png;base64,iVBORw0KGgo=''\<rparr>],
                 vocabulary := [vocab1\<lparr>imageUrl_v := Some placeholderUrl\<rparr>]\<rparr>)\<rparr>"
    using run by (simp only: PV)
  show ?thesis
    by (intro conjI; fact)
qed

section \<open>Regenerating the image of a panel\<close>




section \<open>Editing the text of a panel\<close>

lemma map_if_eq_list_update:
  assumes "distinct (map f xs)" and "k < length xs"
  shows "map (\<lambda>p. if f p = f (xs ! k) then y else p) xs = xs[k := y]"
proof (rule nth_equalityI)
  show "length (map (\<lambda>p. if f p = f (xs ! k) then y else p) xs) = length (xs[k := y])"
    by simp
next
  fix j assume "j < length (map (\<lambda>p. if f p = f (xs ! k) then y else p) xs)"
  then have j: "j < length xs" by simp
  have "f (xs ! j) = f (xs ! k) \<longleftrightarrow> j = k"
    using assms j nth_eq_iff_index_eq [of "map f xs" j k] by simp
  with j assms(2)
  show "map (\<lambda>p. if f p = f (xs ! k) then y else p) xs ! j = xs[k := y] ! j"
    by (simp add: nth_list_update)
qed

lemma map_if_absent:
  "\<forall>p\<in>set xs. f p \<noteq> a \<Longrightarrow> map (\<lambda>p. if f p = a then y else p) xs = xs"
  by (induction xs) auto

text \<open>
  Counterexample to C8 as stated. The edit form is opened on panel 1, the panel is
  redrawn, then the form is saved: \<^verbatim>\<open>handleUpdatePanel\<close> puts the form's copy in place of
  the panel, and the panel's image, which is no editable field, is the old one again.
\<close>

theorem saving_text_replaces_whole_panel:
  "data redrawn =
     Some (illustratedDoc\<lparr>comicScript :=
       [panel1\<lparr>imageUrl := Some ''data:image/png;base64,iVBORw0KGgo=''\<rparr>,
        panel2\<lparr>imageUrl := Some ''data:image/png;base64,BBBB''\<rparr>]\<rparr>)
   \<and> data (ComicGenerator_handleSave staleForm redrawn) =
     Some (illustratedDoc\<lparr>comicScript :=
       [panel1\<lparr>caption := ''A brighter sea'', imageUrl := Some ''data:image/png;base64,AAAA''\<rparr>,
        panel2\<lparr>imageUrl := Some ''data:image/png;base64,BBBB''\<rparr>]\<rparr>)
   \<and> imageUrl (panel1\<lparr>caption := ''A brighter sea'', imageUrl := Some ''data:image/png;base64,AAAA''\<rparr>)
     \<noteq> imageUrl (panel1\<lparr>imageUrl := Some ''data:image/png;base64,iVBORw0KGgo=''\<rparr>)"
proof -
  have g: "generateImage pngModel ''Sun heats the sea'' = Inr ''data:image/png;base64,iVBORw0KGgo=''"
    by (simp add: generateImage_def generateImage_try_def pngModel_def responseParts_def)
  have r: "data redrawn =
     Some (illustratedDoc\<lparr>comicScript :=
       [panel1\<lparr>imageUrl := Some ''data:image/png;base64,iVBORw0KGgo=''\<rparr>,
        panel2\<lparr>imageUrl := Some ''data:image/png;base64,BBBB''\<rparr>]\<rparr>)"
    by (simp add: redrawn_def handleRegeneratePanelImage_def illustrated_def)
      (simp add: illustratedDoc_def panel1_def panel2_def g)
  have s: "data (ComicGenerator_handleSave staleForm redrawn) =
     Some (illustratedDoc\<lparr>comicScript :=
       [panel1\<lparr>caption := ''A brighter sea'', imageUrl := Some ''data:image/png;base64,AAAA''\<rparr>,
        panel2\<lparr>imageUrl := Some ''data:image/png;base64,BBBB''\<rparr>]\<rparr>)"
    by (simp add: ComicGenerator_handleSave_def handleUpdatePanel_def r)
      (simp add: staleForm_def EditForm_setCaption_def EditForm_mount_def panel1_def panel2_def)
  have n: "imageUrl (panel1\<lparr>caption := ''A brighter sea'', imageUrl := Some ''data:image/png;base64,AAAA''\<rparr>)
     \<noteq> imageUrl (panel1\<lparr>imageUrl := Some ''data:image/png;base64,iVBORw0KGgo=''\<rparr>)"
    by simp
  show ?thesis
    by (intro conjI; fact)
qed

text \<open>
  Claim C8, amended. \<^verbatim>\<open>handleUpdatePanel\<close> is a total function of the state. With no
  document it changes nothing. Otherwise every panel whose id is the given one is
  replaced by the supplied panel record as a whole, and nothing else changes; when no
  panel has that id the state is unchanged. When the supplied record is the edit form's
  copy of the current panel with new caption and dialogue, and the ids are distinct, only
  these two fields of that panel change.
\<close>

theorem update_panel_replaces_record:
  "(data st = None \<longrightarrow> handleUpdatePanel panelId' updatedPanel st = st)
   \<and> (\<forall>d. data st = Some d \<longrightarrow>
         (\<exists>newScript.
            handleUpdatePanel panelId' updatedPanel st =
              st\<lparr>data := Some (d\<lparr>comicScript := newScript\<rparr>)\<rparr>
            \<and> length newScript = length (comicScript d)
            \<and> (\<forall>k<length (comicScript d).
                  newScript ! k =
                    (if panelId (comicScript d ! k) = panelId' then updatedPanel
                     else comicScript d ! k))))
   \<and> (\<forall>d. data st = Some d \<and> (\<forall>p\<in>set (comicScript d). panelId p \<noteq> panelId') \<longrightarrow>
         handleUpdatePanel panelId' updatedPanel st = st)
   \<and> (\<forall>d k. data st = Some d \<and> k < length (comicScript d)
           \<and> distinct (map panelId (comicScript d)) \<longrightarrow>
         ComicGenerator_handleSave
           (EditForm_setDialogue dlg (EditForm_setCaption cap (EditForm_mount (comicScript d ! k))))
           st =
         st\<lparr>data := Some (d\<lparr>comicScript :=
              (comicScript d)[k := (comicScript d ! k)\<lparr>caption := cap, characterDialogue := dlg\<rparr>]\<rparr>)\<rparr>)"
proof (intro conjI allI impI)
  assume "data st = None"
  then show "handleUpdatePanel panelId' updatedPanel st = st"
    by (simp add: handleUpdatePanel_def)
next
  fix d assume d: "data st = Some d"
  let ?new = "map (\<lambda>p. if panelId p = panelId' then updatedPanel else p) (comicScript d)"
  have "handleUpdatePanel panelId' updatedPanel st = st\<lparr>data := Some (d\<lparr>comicScript := ?new\<rparr>)\<rparr>"
    using d by (simp add: handleUpdatePanel_def)
  moreover have "length ?new = length (comicScript d)"
    by simp
  moreover have "\<forall>k<length (comicScript d).
      ?new ! k = (if panelId (comicScript d ! k) = panelId' then updatedPanel else comicScript d ! k)"
    by simp
  ultimately show "\<exists>newScript.
      handleUpdatePanel panelId' updatedPanel st =
        st\<lparr>data := Some (d\<lparr>comicScript := newScript\<rparr>)\<rparr>
      \<and> length newScript = length (comicScript d)
      \<and> (\<forall>k<length (comicScript d).
            newScript ! k =
              (if panelId (comicScript d ! k) = panelId' then updatedPanel
               else comicScript d ! k))"
    by blast
next
  fix d
  assume a: "data st = Some d \<and> (\<forall>p\<in>set (comicScript d). panelId p \<noteq> panelId')"
  then have "map (\<lambda>p. if panelId p = panelId' then updatedPanel else p) (comicScript d) =
      comicScript d"
    by (simp add: map_if_absent)
  with a show "handleUpdatePanel panelId' updatedPanel st = st"
    by (simp add: handleUpdatePanel_def)
next
  fix d k
  assume a: "data st = Some d \<and> k < length (comicScript d)
      \<and> distinct (map panelId (comicScript d))"
  let ?form = "(comicScript d ! k)\<lparr>caption := cap, characterDialogue := dlg\<rparr>"
  have "map (\<lambda>p. if panelId p = panelId (comicScript d ! k) then ?form else p) (comicScript d) =
      (comicScript d)[k := ?form]"
    using a by (simp add: map_if_eq_list_update)
  with a show "ComicGenerator_handleSave
      (EditForm_setDialogue dlg (EditForm_setCaption cap (EditForm_mount (comicScript d ! k)))) st =
      st\<lparr>data := Some (d\<lparr>comicScript := (comicScript d)[k := ?form]\<rparr>)\<rparr>"
    by (simp add: ComicGenerator_handleSave_def handleUpdatePanel_def EditForm_setDialogue_def
        EditForm_setCaption_def EditForm_mount_def)
qed

text \<open>Witness for the amended C8: an id that no panel has, and a saved edit form.\<close>

theorem update_panel_replaces_record_witness:
  "data illustrated = Some illustratedDoc
   \<and> list_all (\<lambda>p. panelId p \<noteq> 9) (comicScript illustratedDoc)
   \<and> handleUpdatePanel 9 panel2 illustrated = illustrated
   \<and> (1::nat) < length (comicScript illustratedDoc)
   \<and> distinct (map panelId (comicScript illustratedDoc))
   \<and> ComicGenerator_handleSave
        (EditForm_setDialogue ''Rain soon!'' (EditForm_setCaption ''Clouds gather''
          (EditForm_mount (comicScript illustratedDoc ! 1))))
        illustrated =
      illustrated\<lparr>data := Some (illustratedDoc\<lparr>comicScript :=
        (comicScript illustratedDoc)[1 := (comicScript illustratedDoc ! 1)
          \<lparr>caption := ''Clouds gather'', characterDialogue := ''Rain soon!''\<rparr>]\<rparr>)\<rparr>"
proof -
  have d: "data illustrated = Some illustratedDoc"
    by (simp add: illustrated_def)
  have absent: "list_all (\<lambda>p. panelId p \<noteq> 9) (comicScript illustratedDoc)"
    by (simp add: illustratedDoc_def panel1_def panel2_def)
  then have absent': "\<forall>p\<in>set (comicScript illustratedDoc). panelId p \<noteq> 9"
    by (simp add: list_all_iff)
  have k: "(1::nat) < length (comicScript illustratedDoc)"
    by (simp add: illustratedDoc_def)
  have dist: "distinct (map panelId (comicScript illustratedDoc))"
    by (simp add: illustratedDoc_def panel1_def panel2_def)
  note T = update_panel_replaces_record [of illustrated 9 panel2 "''Rain soon!''" "''Clouds gather''"]
  have same: "handleUpdatePanel 9 panel2 illustrated = illustrated"
    using T d absent' by blast
  have saved: "ComicGenerator_handleSave
        (EditForm_setDialogue ''Rain soon!'' (EditForm_setCaption ''Clouds gather''
          (EditForm_mount (comicScript illustratedDoc ! 1))))
        illustrated =
      illustrated\<lparr>data := Some (illustratedDoc\<lparr>comicScript :=
        (comicScript illustratedDoc)[1 := (comicScript illustratedDoc ! 1)
          \<lparr>caption := ''Clouds gather'', characterDialogue := ''Rain soon!''\<rparr>]\<rparr>)\<rparr>"
    using T d k dist by blast
  show ?thesis
    by (intro conjI; fact)
qed

section \<open>Starting a run and starting over\<close>








section \<open>Results that settle late\<close>

lemma pngGen_fulfils: "pngGen k prompt = Inr ''data:image/png;base64,iVBORw0KGgo=''"
  by (simp add: pngGen_def generateImage_def generateImage_try_def pngModel_def responseParts_def)

lemma handleAnalyze_images_settled:
  assumes "allSettled (length (comicScript result)) orderP"
    and "allSettled (length (vocabulary result)) orderV"
  shows "handleAnalyze_images genP genV orderP orderV result st =
     handleAnalyze_merge (comicPromises genP (comicScript result))
       (vocabPromises genV (vocabulary result)) st"
  using assms by (simp add: handleAnalyze_images_def promiseAll_eq)

text \<open>
  Counterexample to C9 as stated. After the reset the state is \<^verbatim>\<open>IDLE\<close> and holds the
  document of the second run; when the images of the first run settle, its panels and
  vocabulary are written into that document and the state becomes \<^verbatim>\<open>COMPLETE\<close>. The late
  results are applied, not dropped.
\<close>

theorem stale_results_are_applied:
  "twoRuns_reset =
     \<lparr>appState = IDLE,
      data = Some (docB\<lparr>comicScript :=
               [\<lparr>panelId = 1, visualPrompt = ''A leaf in the sun'', caption = ''Light'',
                 characterDialogue = ''Lunch time!'',
                 imageUrl = Some ''data:image/png;base64,iVBORw0KGgo=''\<rparr>]\<rparr>),
      activeTab = Comic, errorMsg = None\<rparr>
   \<and> twoRuns_stale =
     \<lparr>appState = COMPLETE,
      data = Some (docB\<lparr>comicScript :=
               [panel1\<lparr>imageUrl := Some ''data:image/png;base64,iVBORw0KGgo=''\<rparr>,
                panel2\<lparr>imageUrl := Some ''data:image/png;base64,iVBORw0KGgo=''\<rparr>],
             vocabulary := [vocab1\<lparr>imageUrl_v := Some ''data:image/png;base64,iVBORw0KGgo=''\<rparr>]\<rparr>),
      activeTab = Comic, errorMsg = None\<rparr>
   \<and> twoRuns_stale \<noteq> twoRuns_reset"
proof -
  have sB: "allSettled (length (comicScript docB)) [0]" "allSettled (length (vocabulary docB)) []"
    and sA: "allSettled (length (comicScript doc1)) [1, 0]" "allSettled (length (vocabulary doc1)) [0]"
    by (simp_all add: docB_def doc1_def allSettled_def upt_rec)
  have pB: "comicPromises pngGen (comicScript docB) =
      [\<lparr>panelId = 1, visualPrompt = ''A leaf in the sun'', caption = ''Light'',
        characterDialogue = ''Lunch time!'',
        imageUrl = Some ''data:image/png;base64,iVBORw0KGgo=''\<rparr>]"
    and vB: "vocabPromises pngGen (vocabulary docB) = vocabulary docB"
    by (simp_all add: docB_def comicPromises_def vocabPromises_def upt_rec panelJob_def
        pngGen_fulfils)
  have pA: "comicPromises pngGen (comicScript doc1) =
      [panel1\<lparr>imageUrl := Some ''data:image/png;base64,iVBORw0KGgo=''\<rparr>,
       panel2\<lparr>imageUrl := Some ''data:image/png;base64,iVBORw0KGgo=''\<rparr>]"
    and vA: "vocabPromises pngGen (vocabulary doc1) =
      [vocab1\<lparr>imageUrl_v := Some ''data:image/png;base64,iVBORw0KGgo=''\<rparr>]"
    by (simp_all add: doc1_def comicPromises_def vocabPromises_def upt_rec panelJob_def
        vocabJob_def pngGen_fulfils)
  have reset: "twoRuns_reset =
     \<lparr>appState = IDLE,
      data = Some (docB\<lparr>comicScript :=
               [\<lparr>panelId = 1, visualPrompt = ''A leaf in the sun'', caption = ''Light'',
                 characterDialogue = ''Lunch time!'',
                 imageUrl = Some ''data:image/png;base64,iVBORw0KGgo=''\<rparr>]\<rparr>),
      activeTab = Comic, errorMsg = None\<rparr>"
    unfolding twoRuns_reset_def handleAnalyze_images_settled [OF sB] pB vB
    by (simp add: startOver_def handleAnalyze_merge_def handleAnalyze_analyzed_def
        handleAnalyze_begin_def initialApp_def)
  have stale: "twoRuns_stale =
     \<lparr>appState = COMPLETE,
      data = Some (docB\<lparr>comicScript :=
               [panel1\<lparr>imageUrl := Some ''data:image/png;base64,iVBORw0KGgo=''\<rparr>,
                panel2\<lparr>imageUrl := Some ''data:image/png;base64,iVBORw0KGgo=''\<rparr>],
             vocabulary := [vocab1\<lparr>imageUrl_v := Some ''data:image/png;base64,iVBORw0KGgo=''\<rparr>]\<rparr>),
      activeTab = Comic, errorMsg = None\<rparr>"
    unfolding twoRuns_stale_def handleAnalyze_images_settled [OF sA] pA vA reset
    by (simp add: handleAnalyze_merge_def)
  have "appState twoRuns_stale \<noteq> appState twoRuns_reset"
    unfolding stale reset by simp
  then have differ: "twoRuns_stale \<noteq> twoRuns_reset"
    by auto
  show ?thesis
    by (intro conjI; fact)
qed

text \<open>
  Claim C9, amended. A run carries no identifier. When the images of a run have settled,
  its results are merged into the state that is current then: with no document stored
  the document stays absent, otherwise the panels and the vocabulary of the stored
  document, whichever run stored it, are replaced by the results; in both cases the state
  becomes \<^verbatim>\<open>COMPLETE\<close>.
\<close>

theorem merge_checks_only_presence:
  "(data st = None \<longrightarrow>
      handleAnalyze_merge panelsWithImages vocabWithImages st = st\<lparr>appState := COMPLETE\<rparr>)
   \<and> (\<forall>prev. data st = Some prev \<longrightarrow>
         handleAnalyze_merge panelsWithImages vocabWithImages st =
           st\<lparr>data := Some (prev\<lparr>comicScript := panelsWithImages,
                                vocabulary := vocabWithImages\<rparr>),
              appState := COMPLETE\<rparr>)
   \<and> (allSettled (length (comicScript result)) orderP
        \<and> allSettled (length (vocabulary result)) orderV \<longrightarrow>
       handleAnalyze_images genP genV orderP orderV result st =
         handleAnalyze_merge (comicPromises genP (comicScript result))
           (vocabPromises genV (vocabulary result)) st)"
proof (intro conjI allI impI)
  assume "data st = None"
  then show "handleAnalyze_merge panelsWithImages vocabWithImages st = st\<lparr>appState := COMPLETE\<rparr>"
    by (simp add: handleAnalyze_merge_def)
next
  fix prev assume "data st = Some prev"
  then show "handleAnalyze_merge panelsWithImages vocabWithImages st =
      st\<lparr>data := Some (prev\<lparr>comicScript := panelsWithImages, vocabulary := vocabWithImages\<rparr>),
         appState := COMPLETE\<rparr>"
    by (simp add: handleAnalyze_merge_def)
next
  assume "allSettled (length (comicScript result)) orderP
      \<and> allSettled (length (vocabulary result)) orderV"
  then show "handleAnalyze_images genP genV orderP orderV result st =
      handleAnalyze_merge (comicPromises genP (comicScript result))
        (vocabPromises genV (vocabulary result)) st"
    by (simp add: handleAnalyze_images_settled)
qed

text \<open>Witness for the amended C9: a state with no document and a state with one.\<close>

theorem merge_checks_only_presence_witness:
  "data analyzing = None
   \<and> handleAnalyze_merge [panel1] [vocab1] analyzing = analyzing\<lparr>appState := COMPLETE\<rparr>
   \<and> data illustrated = Some illustratedDoc
   \<and> handleAnalyze_merge [panel1] [vocab1] illustrated =
       illustrated\<lparr>data := Some (illustratedDoc\<lparr>comicScript := [panel1], vocabulary := [vocab1]\<rparr>),
                  appState := COMPLETE\<rparr>
   \<and> allSettled (length (comicScript docB)) [0]
   \<and> allSettled (length (vocabulary docB)) []
   \<and> handleAnalyze_images pngGen pngGen [0] [] docB illustrated =
       handleAnalyze_merge (comicPromises pngGen (comicScript docB))
         (vocabPromises pngGen (vocabulary docB)) illustrated"
proof -
  have n: "data analyzing = None"
    by (simp add: analyzing_def handleAnalyze_begin_def)
  have d: "data illustrated = Some illustratedDoc"
    by (simp add: illustrated_def)
  have sB: "allSettled (length (comicScript docB)) [0]"
    and sB': "allSettled (length (vocabulary docB)) []"
    by (simp_all add: docB_def allSettled_def upt_rec)
  have dropped: "handleAnalyze_merge [panel1] [vocab1] analyzing = analyzing\<lparr>appState := COMPLETE\<rparr>"
    using merge_checks_only_presence [of analyzing "[panel1]" "[vocab1]"] n by blast
  have applied: "handleAnalyze_merge [panel1] [vocab1] illustrated =
       illustrated\<lparr>data := Some (illustratedDoc\<lparr>comicScript := [panel1], vocabulary := [vocab1]\<rparr>),
                  appState := COMPLETE\<rparr>"
    using merge_checks_only_presence [of illustrated "[panel1]" "[vocab1]"] d by blast
  have images: "handleAnalyze_images pngGen pngGen [0] [] docB illustrated =
       handleAnalyze_merge (comicPromises pngGen (comicScript docB))
         (vocabPromises pngGen (vocabulary docB)) illustrated"
    using merge_checks_only_presence [of illustrated _ _ docB "[0]" "[]" pngGen pngGen] sB sB'
    by blast
  show ?thesis
    by (intro conjI; fact)
qed

section \<open>Editing the graph\<close>

lemma filterNotIndex_below:
  "idx < k \<Longrightarrow> map snd (filter (\<lambda>ix. fst ix \<noteq> idx) (enumerate k xs)) = xs"
  by (induction xs arbitrary: k) auto

lemma filterNotIndex_enum:
  "map snd (filter (\<lambda>ix. fst ix \<noteq> k + j) (enumerate k xs)) = take j xs @ drop (Suc j) xs"
proof (induction xs arbitrary: k j)
  case Nil
  then show ?case by simp
next
  case (Cons x xs)
  show ?case
  proof (cases j)
    case 0
    then show ?thesis by (simp add: filterNotIndex_below)
  next
    case (Suc j')
    then show ?thesis using Cons.IH [of "Suc k" j'] by simp
  qed
qed

lemma filterNotIndex_take_drop: "filterNotIndex idx xs = take idx xs @ drop (Suc idx) xs"
  using filterNotIndex_enum [of 0 idx xs] by (simp add: filterNotIndex_def)

lemma distinct_nth_not_in_rest:
  assumes "distinct xs" and "idx < length xs"
  shows "xs ! idx \<notin> set (take idx xs @ drop (Suc idx) xs)"
proof -
  have "xs = take idx xs @ xs ! idx # drop (Suc idx) xs"
    using assms(2) by (simp add: id_take_nth_drop [symmetric])
  then have "distinct (take idx xs @ xs ! idx # drop (Suc idx) xs)"
    using assms(1) by simp
  then show ?thesis by auto
qed

lemma handleSave_document:
  assumes "data (app s) = Some d"
  shows "handleSave s =
     \<lparr>app = (app s)\<lparr>data := Some (d\<lparr>logicGraph := editData (graphView s)\<rparr>)\<rparr>,
      graphView = \<lparr>isEditing = False, editData = editData (graphView s)\<rparr>\<rparr>"
  using assms by (simp add: handleSave_def handleUpdateLogic_def LogicGraph_sync_def)

lemma graphTab_document: "data (app graphTab) = Some illustratedDoc"
  by (simp add: graphTab_def illustrated_def)

lemma graphTab_scratch: "editData (graphView graphTab) = graph1"
  by (simp add: graphTab_def LogicGraph_mount_def illustratedDoc_def doc1_def)






lemma forceLink_find_missing:
  "nodeId \<notin> set (map id_n ns) \<Longrightarrow>
   forceLink_find ns nodeId = Inl (Error (''node not found: '' @ nodeId))"
proof -
  assume "nodeId \<notin> set (map id_n ns)"
  then have "nodeId \<notin> fst ` set (rev (map (\<lambda>n. (id_n n, n)) ns))"
    by (auto simp: image_iff)
  then have "map_of (rev (map (\<lambda>n. (id_n n, n)) ns)) nodeId = None"
    by (simp add: map_of_eq_None_iff)
  then show ?thesis
    by (simp add: forceLink_find_def)
qed

lemma forceLink_find_error:
  "forceLink_find ns nodeId = Inl e \<Longrightarrow> e = Error (''node not found: '' @ nodeId)"
  by (simp add: forceLink_find_def split: option.splits)

lemma forceLink_initialize_dangling:
  assumes "l \<in> set ls"
    and "source l \<notin> set (map id_n ns) \<or> target l \<notin> set (map id_n ns)"
  shows "\<exists>nodeId. forceLink_initialize ns ls = Inl (Error (''node not found: '' @ nodeId))"
  using assms(1)
proof (induction ls)
  case Nil
  then show ?case by simp
next
  case (Cons k ls)
  show ?case
  proof (cases "forceLink_find ns (source k)")
    case (Inl e)
    then show ?thesis
      using forceLink_find_error [OF Inl] by auto
  next
    case s: (Inr sn)
    show ?thesis
    proof (cases "forceLink_find ns (target k)")
      case (Inl e)
      then show ?thesis
        using s forceLink_find_error [OF Inl] by auto
    next
      case t: (Inr tn)
      have "l \<noteq> k"
        using assms(2) s t forceLink_find_missing [of "source l" ns]
          forceLink_find_missing [of "target l" ns]
        by auto
      with Cons.prems have "l \<in> set ls" by simp
      from Cons.IH [OF this] obtain nodeId
        where "forceLink_initialize ns ls = Inl (Error (''node not found: '' @ nodeId))"
        by blast
      then show ?thesis
        using s t by auto
    qed
  qed
qed

text \<open>
  Claim C7, which the code breaks. In an editing session on a scratch copy with distinct
  node ids, removing the node at a row and saving stores the graph that the claim
  describes: the nodes without that row, the id of the removed node absent, the links as
  they were, and the link that refers to the removed node still present. But the layout
  effect of the render that follows the save throws on that link, "node not found", and
  the application is unmounted: an operation fails.
\<close>

theorem saving_a_dangling_link_throws:
  assumes "data (app s) = Some d"
    and "idx < length (nodes (editData (graphView s)))"
    and "distinct (map id_n (nodes (editData (graphView s))))"
    and "l \<in> set (links (editData (graphView s)))"
    and "source l = id_n (nodes (editData (graphView s)) ! idx)
       \<or> target l = id_n (nodes (editData (graphView s)) ! idx)"
  shows "\<exists>saved nodeId.
      data (app (handleSave (LogicGraph_edits [RemoveNode idx] (LogicGraph_edit s)))) =
        Some (d\<lparr>logicGraph := saved\<rparr>)
      \<and> nodes saved = take idx (nodes (editData (graphView s)))
           @ drop (Suc idx) (nodes (editData (graphView s)))
      \<and> id_n (nodes (editData (graphView s)) ! idx) \<notin> set (map id_n (nodes saved))
      \<and> links saved = links (editData (graphView s))
      \<and> l \<in> set (links saved)
      \<and> LogicGraph_layout False saved = Inl (Error (''node not found: '' @ nodeId))
      \<and> LogicGraph_save (LogicGraph_edits [RemoveNode idx] (LogicGraph_edit s)) =
          Inl (Error (''node not found: '' @ nodeId))"
proof -
  let ?g = "editData (graphView s)"
  let ?saved = "removeNode idx ?g"
  let ?s = "LogicGraph_edits [RemoveNode idx] (LogicGraph_edit s)"
  have d: "data (app ?s) = Some d"
    using assms(1) by (simp add: LogicGraph_edits_def LogicGraph_edit_def)
  have e: "editData (graphView ?s) = ?saved"
    by (simp add: LogicGraph_edits_def LogicGraph_edit_def)
  have hs: "handleSave ?s =
      \<lparr>app = (app ?s)\<lparr>data := Some (d\<lparr>logicGraph := ?saved\<rparr>)\<rparr>,
       graphView = \<lparr>isEditing = False, editData = ?saved\<rparr>\<rparr>"
    using handleSave_document [OF d] e by simp
  have stored: "data (app (handleSave ?s)) = Some (d\<lparr>logicGraph := ?saved\<rparr>)"
    by (simp add: hs)
  have n: "nodes ?saved = take idx (nodes ?g) @ drop (Suc idx) (nodes ?g)"
    by (simp add: removeNode_def filterNotIndex_take_drop)
  have absent: "id_n (nodes ?g ! idx) \<notin> set (map id_n (nodes ?saved))"
    using distinct_nth_not_in_rest [OF assms(3), of idx] assms(2)
    by (simp add: n take_map drop_map)
  have k: "links ?saved = links ?g"
    by (simp add: removeNode_def)
  have mem: "l \<in> set (links ?saved)"
    using assms(4) by (simp add: k)
  have "source l \<notin> set (map id_n (nodes ?saved)) \<or> target l \<notin> set (map id_n (nodes ?saved))"
    using assms(5) absent by auto
  from forceLink_initialize_dangling [OF mem this]
  obtain nodeId where
    init: "forceLink_initialize (nodes ?saved) (links ?saved) =
      Inl (Error (''node not found: '' @ nodeId))"
    by blast
  then have layout: "LogicGraph_layout False ?saved = Inl (Error (''node not found: '' @ nodeId))"
    by (simp add: LogicGraph_layout_def)
  have "LogicGraph_save ?s = Inl (Error (''node not found: '' @ nodeId))"
    by (simp add: LogicGraph_save_def Let_def hs layout)
  with stored n absent k mem layout show ?thesis
    by blast
qed

text \<open>
  Witness for C7: the node \<open>a\<close> of a graph with the link from \<open>a\<close> to \<open>b\<close> is removed and
  the graph saved.
\<close>

theorem saving_a_dangling_link_throws_witness:
  "data (app graphTab) = Some illustratedDoc
   \<and> (0::nat) < length (nodes (editData (graphView graphTab)))
   \<and> distinct (map id_n (nodes (editData (graphView graphTab))))
   \<and> links (editData (graphView graphTab)) =
       [\<lparr>source = ''a'', target = ''b'', relationship = ''evaporates into''\<rparr>]
   \<and> id_n (nodes (editData (graphView graphTab)) ! 0) = ''a''
   \<and> data (app (handleSave (LogicGraph_edits [RemoveNode 0] (LogicGraph_edit graphTab)))) =
       Some (illustratedDoc\<lparr>logicGraph :=
         \<lparr>nodes = [\<lparr>id_n = ''b'', label = ''Cloud'', group_n = 2\<rparr>],
          links = [\<lparr>source = ''a'', target = ''b'', relationship = ''evaporates into''\<rparr>]\<rparr>\<rparr>)
   \<and> LogicGraph_save (LogicGraph_edits [RemoveNode 0] (LogicGraph_edit graphTab)) =
       Inl (Error ''node not found: a'')"
proof -
  let ?l = "\<lparr>source = ''a'', target = ''b'', relationship = ''evaporates into''\<rparr>"
  let ?b = "\<lparr>id_n = ''b'', label = ''Cloud'', group_n = 2\<rparr>"
  have d: "data (app graphTab) = Some illustratedDoc"
    by (rule graphTab_document)
  have i: "(0::nat) < length (nodes (editData (graphView graphTab)))"
    and dist: "distinct (map id_n (nodes (editData (graphView graphTab))))"
    and ls: "links (editData (graphView graphTab)) = [?l]"
    and a: "id_n (nodes (editData (graphView graphTab)) ! 0) = ''a''"
    by (simp_all add: graphTab_scratch graph1_def)
  have mem: "?l \<in> set (links (editData (graphView graphTab)))"
    by (simp add: ls)
  have ref: "source ?l = id_n (nodes (editData (graphView graphTab)) ! 0)
      \<or> target ?l = id_n (nodes (editData (graphView graphTab)) ! 0)"
    by (simp add: a)
  from saving_a_dangling_link_throws [OF d i dist mem ref]
  obtain saved nodeId where
    s: "data (app (handleSave (LogicGraph_edits [RemoveNode 0] (LogicGraph_edit graphTab)))) =
        Some (illustratedDoc\<lparr>logicGraph := saved\<rparr>)"
    and n: "nodes saved = take 0 (nodes (editData (graphView graphTab)))
           @ drop (Suc 0) (nodes (editData (graphView graphTab)))"
    and k: "links saved = links (editData (graphView graphTab))"
    and layout: "LogicGraph_layout False saved = Inl (Error (''node not found: '' @ nodeId))"
    and thrown: "LogicGraph_save (LogicGraph_edits [RemoveNode 0] (LogicGraph_edit graphTab)) =
          Inl (Error (''node not found: '' @ nodeId))"
    by blast
  have ns: "nodes saved = [?b]"
    unfolding n by (simp add: graphTab_scratch graph1_def)
  have "saved = \<lparr>nodes = nodes saved, links = links saved\<rparr>"
    by simp
  then have sv: "saved = \<lparr>nodes = [?b], links = [?l]\<rparr>"
    unfolding ns k by (simp add: ls)
  have stored: "data (app (handleSave (LogicGraph_edits [RemoveNode 0]
      (LogicGraph_edit graphTab)))) =
       Some (illustratedDoc\<lparr>logicGraph := \<lparr>nodes = [?b], links = [?l]\<rparr>\<rparr>)"
    using s sv by simp
  have "LogicGraph_layout False \<lparr>nodes = [?b], links = [?l]\<rparr> = Inl (Error ''node not found: a'')"
    by (simp add: LogicGraph_layout_def forceLink_find_def)
  with layout sv have "nodeId = ''a''"
    by simp
  with thrown have crash: "LogicGraph_save (LogicGraph_edits [RemoveNode 0]
      (LogicGraph_edit graphTab)) = Inl (Error ''node not found: a'')"
    by simp
  show ?thesis
    by (intro conjI; fact)
qed

end
